theory Spec2Isabelle
  imports Main
begin

section \<open>Python strings and integers\<close>

text \<open>
  A Python \<open>str\<close> is modelled as a list of code points below 256 (one \<open>char\<close> each), so
  the multiplication sign of the Mercury messages is the single character \<open>CHR 0xD7\<close>.
  On this range \<open>str.lower\<close> maps A-Z and the upper-case Latin-1 letters to their
  lower-case partners and leaves everything else alone, and \<open>str.strip\<close> removes the
  characters for which \<open>str.isspace\<close> holds from both ends.
\<close>

definition upper_letters :: "string" where
  "upper_letters = ''ABCDEFGHIJKLMNOPQRSTUVWXYZ'' @
     [CHR 0xC0, CHR 0xC1, CHR 0xC2, CHR 0xC3, CHR 0xC4, CHR 0xC5, CHR 0xC6, CHR 0xC7,
      CHR 0xC8, CHR 0xC9, CHR 0xCA, CHR 0xCB, CHR 0xCC, CHR 0xCD, CHR 0xCE, CHR 0xCF,
      CHR 0xD0, CHR 0xD1, CHR 0xD2, CHR 0xD3, CHR 0xD4, CHR 0xD5, CHR 0xD6,
      CHR 0xD8, CHR 0xD9, CHR 0xDA, CHR 0xDB, CHR 0xDC, CHR 0xDD, CHR 0xDE]"

definition lower_letters :: "string" where
  "lower_letters = ''abcdefghijklmnopqrstuvwxyz'' @
     [CHR 0xE0, CHR 0xE1, CHR 0xE2, CHR 0xE3, CHR 0xE4, CHR 0xE5, CHR 0xE6, CHR 0xE7,
      CHR 0xE8, CHR 0xE9, CHR 0xEA, CHR 0xEB, CHR 0xEC, CHR 0xED, CHR 0xEE, CHR 0xEF,
      CHR 0xF0, CHR 0xF1, CHR 0xF2, CHR 0xF3, CHR 0xF4, CHR 0xF5, CHR 0xF6,
      CHR 0xF8, CHR 0xF9, CHR 0xFA, CHR 0xFB, CHR 0xFC, CHR 0xFD, CHR 0xFE]"

definition lower_char :: "char \<Rightarrow> char" where
  "lower_char c = (case map_of (zip upper_letters lower_letters) c of
                     Some d \<Rightarrow> d | None \<Rightarrow> c)"

definition lower :: "string \<Rightarrow> string" where
  "lower s = map lower_char s"

definition whitespace :: "string" where
  "whitespace = [CHR 0x09, CHR 0x0A, CHR 0x0B, CHR 0x0C, CHR 0x0D,
                 CHR 0x1C, CHR 0x1D, CHR 0x1E, CHR 0x1F, CHR 0x20, CHR 0x85, CHR 0xA0]"

definition isspace :: "char \<Rightarrow> bool" where
  "isspace c = (c \<in> set whitespace)"

definition strip :: "string \<Rightarrow> string" where
  "strip s = rev (dropWhile isspace (rev (dropWhile isspace s)))"

text \<open>\<open>str(n)\<close> and the \<open>{n}\<close> of an f-string, for a Python \<open>int\<close>.\<close>

function str_nat :: "nat \<Rightarrow> string" where
  "str_nat n = (if n < 10 then [''0123456789'' ! n]
                else str_nat (n div 10) @ [''0123456789'' ! (n mod 10)])"
  by pat_completeness auto
termination
  by (relation "measure id") auto

declare str_nat.simps [simp del]

definition str_int :: "int \<Rightarrow> string" where
  "str_int i = (if i < 0 then ''-'' @ str_nat (nat (- i)) else str_nat (nat i))"

section \<open>Responses, exceptions and the upstream client\<close>

text \<open>
  The \<open>detail\<close> of an \<open>HTTPException\<close> is a JSON value. \<open>RequestValidationError\<close> is
  what the framework raises, before the handler body runs, when a query parameter breaks
  a constraint declared in the handler's signature (\<open>ge\<close>, \<open>le\<close>, \<open>regex\<close>); it names
  the offending parameters. \<open>Uncaught\<close> is an exception that no \<open>except\<close> clause of the
  handler catches.
\<close>

datatype json = JStr string | JInt int | JList "json list" | JObj "(string \<times> json) list"

datatype exn =
    HTTPException int json
  | RequestValidationError "string list"
  | Uncaught string

record response =
  content :: string
  media_type :: string
  headers :: "(string \<times> string) list"

text \<open>
  What \<open>await client.get(tile_url)\<close> produces: a response with its status code and body,
  or one of httpx's exceptions. \<open>TimeoutException\<close> is a subclass of \<open>RequestError\<close>,
  which is a subclass of \<open>HTTPError\<close>; \<open>RequestError\<close> below stands for the request
  errors that are not timeouts (connection refused or reset, DNS failure), \<open>OtherError\<close>
  for an exception outside httpx's hierarchy. The first two carry \<open>str(e)\<close>, the last the
  name of the exception's class.
\<close>

datatype get_result =
    Response int string
  | TimeoutException string
  | RequestError string
  | OtherError string

text \<open>The field \<open>error\<close> of a detail dictionary, the machine-readable kind.\<close>

fun error_of :: "json \<Rightarrow> string option" where
  "error_of (JObj kvs) = (case map_of kvs ''error'' of Some (JStr s) \<Rightarrow> Some s | _ \<Rightarrow> None)"
| "error_of _ = None"

fun field_of :: "string \<Rightarrow> json \<Rightarrow> json option" where
  "field_of k (JObj kvs) = map_of kvs k"
| "field_of k _ = None"

section \<open>config.py\<close>

definition CONTENT_TYPE_MAP :: "(string \<times> string) list" where
  "CONTENT_TYPE_MAP =
     [(''jpg'', ''image/jpeg''), (''jpeg'', ''image/jpeg''),
      (''png'', ''image/png''), (''png8'', ''image/png''),
      (''tif'', ''image/tiff''), (''tiff'', ''image/tiff'')]"

text \<open>\<open>CONTENT_TYPE_MAP.get(format, "image/jpeg")\<close>\<close>

definition content_type_of :: "string \<Rightarrow> string" where
  "content_type_of format =
     (case map_of CONTENT_TYPE_MAP format of Some t \<Rightarrow> t | None \<Rightarrow> ''image/jpeg'')"

definition GIBS_BASE_URL :: string where
  "GIBS_BASE_URL = ''https://gibs.earthdata.nasa.gov/wmts/epsg3857/best''"

definition EARTH_DEFAULT_LAYER :: string where
  "EARTH_DEFAULT_LAYER = ''VIIRS_SNPP_CorrectedReflectance_TrueColor''"

definition EARTH_DEFAULT_TMS :: string where
  "EARTH_DEFAULT_TMS = ''GoogleMapsCompatible_Level9''"

definition EARTH_MAX_ZOOM :: int where
  "EARTH_MAX_ZOOM = 9"

definition EARTH_CACHE_MAX_AGE :: int where
  "EARTH_CACHE_MAX_AGE = 86400"

definition TREK_MOON_BASE_URL :: string where
  "TREK_MOON_BASE_URL = ''https://trek.nasa.gov/tiles/Moon/EQ''"

definition MOON_MAX_ZOOM :: int where
  "MOON_MAX_ZOOM = 10"

definition MOON_CACHE_MAX_AGE :: int where
  "MOON_CACHE_MAX_AGE = 2592000"

definition TREK_MERCURY_BASE_URL :: string where
  "TREK_MERCURY_BASE_URL = ''https://trek.nasa.gov/tiles/Mercury/EQ''"

definition MERCURY_CACHE_MAX_AGE :: int where
  "MERCURY_CACHE_MAX_AGE = 2592000"

section \<open>mercury_service.py\<close>

text \<open>The module constant \<open>MAX_ZOOM = 7\<close> of mercury_service.py.\<close>

definition mercury_MAX_ZOOM :: int where
  "mercury_MAX_ZOOM = 7"

definition quote :: "string \<Rightarrow> string" where
  "quote s = [CHR 0x27] @ s @ [CHR 0x27]"

text \<open>Step 1 of \<open>get_mercury_tile\<close>: the format check (406).\<close>

definition mercury_validate_format :: "string \<Rightarrow> exn + unit" where
  "mercury_validate_format format =
     (if lower format \<noteq> ''jpg'' then
        Inl (HTTPException 406 (JObj
          [(''error'', JStr ''Unsupported format''),
           (''message'', JStr (''Only '' @ quote ''jpg'' @
               '' format is supported. Requested format: '' @ quote format)),
           (''supported_formats'', JList [JStr ''jpg'']),
           (''provided'', JStr format)]))
      else Inr ())"

text \<open>Step 2: the zoom check (400).\<close>

definition mercury_validate_zoom :: "int \<Rightarrow> exn + unit" where
  "mercury_validate_zoom z =
     (if z < 0 \<or> z > mercury_MAX_ZOOM then
        Inl (HTTPException 400 (JObj
          [(''error'', JStr ''Zoom level out of range''),
           (''message'', JStr (''Zoom level must be between 0 and '' @ str_int mercury_MAX_ZOOM)),
           (''provided'', JInt z),
           (''valid_range'', JStr (''0-'' @ str_int mercury_MAX_ZOOM)),
           (''suggestion'', JStr (''Use a zoom level between 0 and '' @ str_int mercury_MAX_ZOOM))]))
      else Inr ())"

text \<open>
  Step 3: the coordinate check (400). \<open>max_tile_col = 2 ** (z + 1)\<close> and
  \<open>max_tile_row = 2 ** z\<close> are evaluated after the zoom check only, so with \<open>0 \<le> z\<close>,
  where Python's \<open>**\<close> is the integer power.
\<close>

definition max_tile_col :: "int \<Rightarrow> int" where
  "max_tile_col z = 2 ^ nat (z + 1)"

definition max_tile_row :: "int \<Rightarrow> int" where
  "max_tile_row z = 2 ^ nat z"

definition tile_matrix :: "int \<Rightarrow> string" where
  "tile_matrix z = str_int (max_tile_col z) @ [CHR 0xD7] @ str_int (max_tile_row z)"

definition mercury_validate_coordinates :: "int \<Rightarrow> int \<Rightarrow> int \<Rightarrow> exn + unit" where
  "mercury_validate_coordinates z x y =
     (if x < 0 \<or> x \<ge> max_tile_col z then
        Inl (HTTPException 400 (JObj
          [(''error'', JStr ''X coordinate out of bounds''),
           (''message'', JStr (''For zoom level '' @ str_int z @ '', x must be between 0 and ''
               @ str_int (max_tile_col z - 1))),
           (''provided'', JInt x),
           (''valid_range'', JStr (''0-'' @ str_int (max_tile_col z - 1))),
           (''zoom_level'', JInt z),
           (''tile_matrix'', JStr (tile_matrix z))]))
      else if y < 0 \<or> y \<ge> max_tile_row z then
        Inl (HTTPException 400 (JObj
          [(''error'', JStr ''Y coordinate out of bounds''),
           (''message'', JStr (''For zoom level '' @ str_int z @ '', y must be between 0 and ''
               @ str_int (max_tile_row z - 1))),
           (''provided'', JInt y),
           (''valid_range'', JStr (''0-'' @ str_int (max_tile_row z - 1))),
           (''zoom_level'', JInt z),
           (''tile_matrix'', JStr (tile_matrix z))]))
      else Inr ())"

text \<open>Step 4: the upstream URL.\<close>

definition mercury_tile_url ::
  "string \<Rightarrow> string \<Rightarrow> string \<Rightarrow> string \<Rightarrow> int \<Rightarrow> int \<Rightarrow> int \<Rightarrow> string \<Rightarrow> string" where
  "mercury_tile_url layer version style TileMatrixSet z y x format =
     TREK_MERCURY_BASE_URL @ ''/'' @
     layer @ ''/'' @ version @ ''/'' @ style @ ''/'' @ TileMatrixSet @ ''/'' @
     str_int z @ ''/'' @ str_int y @ ''/'' @ str_int x @ ''.'' @ format"

text \<open>
  Steps 5 and 6: the outcome of the GET, classified. The \<open>HTTPException\<close>s raised inside
  the \<open>try\<close> are re-raised by \<open>except HTTPException: raise\<close>; any other exception becomes
  the 500 of \<open>except Exception\<close>, whose \<open>error_type\<close> is the exception's class name.
\<close>

definition mercury_classify ::
  "get_result \<Rightarrow> string \<Rightarrow> string \<Rightarrow> string \<Rightarrow> int \<Rightarrow> int \<Rightarrow> int \<Rightarrow> string \<Rightarrow> string \<Rightarrow> string
     \<Rightarrow> exn + response" where
  "mercury_classify r tile_url layer version z y x style TileMatrixSet format =
     (case r of
        Response status_code body \<Rightarrow>
          if status_code = 404 then
            Inl (HTTPException 404 (JObj
              [(''error'', JStr ''Tile not found''),
               (''message'', JStr ''The requested Mercury tile does not exist. This may be due to invalid coordinates, layer name, or the tile may not have data coverage.''),
               (''requested_url'', JStr tile_url),
               (''parameters'', JObj
                  [(''layer'', JStr layer), (''version'', JStr version),
                   (''z'', JInt z), (''y'', JInt y), (''x'', JInt x),
                   (''style'', JStr style), (''TileMatrixSet'', JStr TileMatrixSet),
                   (''format'', JStr format)]),
               (''suggestions'', JList
                  [JStr ''Verify tile coordinates are within bounds'',
                   JStr ''Check if the layer name is correct'',
                   JStr ''Try a different zoom level'',
                   JStr (''Valid zoom range: 0-'' @ str_int mercury_MAX_ZOOM)])]))
          else if status_code \<noteq> 200 then
            Inl (HTTPException 502 (JObj
              [(''error'', JStr ''Upstream service error''),
               (''message'', JStr (''NASA Trek returned status code '' @ str_int status_code)),
               (''requested_url'', JStr tile_url),
               (''status_code'', JInt status_code)]))
          else
            Inr \<lparr>content = body,
                 media_type = content_type_of format,
                 headers =
                   [(''Cache-Control'', ''public, max-age='' @ str_int MERCURY_CACHE_MAX_AGE),
                    (''X-Tile-Source'', ''NASA Trek Mercury WMTS''),
                    (''X-Tile-Layer'', layer),
                    (''X-Tile-Coordinates'',
                       ''z='' @ str_int z @ '', y='' @ str_int y @ '', x='' @ str_int x),
                    (''X-Tile-Format'', format),
                    (''X-Tile-Matrix'', tile_matrix z),
                    (''X-Dataset'', ''MESSENGER MDIS Enhanced Color Mosaic''),
                    (''X-Resolution'', ''665m per pixel''),
                    (''X-Coordinate-System'', ''IAU2000::19900'')]\<rparr>
      | TimeoutException msg \<Rightarrow>
          Inl (HTTPException 502 (JObj
            [(''error'', JStr ''Request timeout''),
             (''message'', JStr ''Request to NASA Trek timed out after 15.0 seconds''),
             (''requested_url'', JStr tile_url)]))
      | RequestError msg \<Rightarrow>
          Inl (HTTPException 502 (JObj
            [(''error'', JStr ''Network error''),
             (''message'', JStr (''Failed to connect to NASA Trek: '' @ msg)),
             (''requested_url'', JStr tile_url)]))
      | OtherError cls \<Rightarrow>
          Inl (HTTPException 500 (JObj
            [(''error'', JStr ''Internal server error''),
             (''message'', JStr ''An unexpected error occurred while processing your request''),
             (''error_type'', JStr cls)])))"

text \<open>
  The handler body. \<open>client_get\<close> is the upstream; the last argument is the list of the
  URLs requested so far, returned with the URL of this call appended when, and only when,
  the handler performs its GET.
\<close>

definition get_mercury_tile ::
  "(string \<Rightarrow> get_result) \<Rightarrow> int \<Rightarrow> int \<Rightarrow> int \<Rightarrow> string \<Rightarrow> string \<Rightarrow> string \<Rightarrow> string \<Rightarrow> string
     \<Rightarrow> string list \<Rightarrow> (exn + response) \<times> string list" where
  "get_mercury_tile client_get z x y layer version style TileMatrixSet format requested =
     (case mercury_validate_format format of
        Inl e \<Rightarrow> (Inl e, requested)
      | Inr _ \<Rightarrow>
     (case mercury_validate_zoom z of
        Inl e \<Rightarrow> (Inl e, requested)
      | Inr _ \<Rightarrow>
     (case mercury_validate_coordinates z x y of
        Inl e \<Rightarrow> (Inl e, requested)
      | Inr _ \<Rightarrow>
          let tile_url = mercury_tile_url layer version style TileMatrixSet z y x format in
          (mercury_classify (client_get tile_url) tile_url layer version z y x style
             TileMatrixSet format,
           requested @ [tile_url]))))"

section \<open>The upstream outcome in the Earth, Moon and Mars handlers\<close>

text \<open>
  \<open>response.raise_for_status()\<close> of httpx raises \<open>HTTPStatusError\<close> unless the status is
  a success (\<open>200 \<le> status \<le> 299\<close>).
\<close>

definition is_success :: "int \<Rightarrow> bool" where
  "is_success status_code = (200 \<le> status_code \<and> status_code \<le> 299)"

text \<open>
  \<open>max_tiles = 2 ** z\<close> of the Earth, Moon and Mars coordinate checks. It is the integer
  power for \<open>0 \<le> z\<close>, which is what the handlers are called with (the routes declare
  \<open>ge=0\<close> for \<open>z\<close>, and Mars checks the zoom first).
\<close>

definition max_tiles :: "int \<Rightarrow> int" where
  "max_tiles z = 2 ^ nat z"

section \<open>mars_service.py\<close>

definition TREK_MARS_BASE_URL :: string where
  "TREK_MARS_BASE_URL = ''https://trek.nasa.gov/tiles/Mars/EQ''"

definition MARS_DEFAULT_LAYER :: string where
  "MARS_DEFAULT_LAYER = ''Mars_Viking_MDIM21_ClrMosaic_global_232m''"

definition MARS_CACHE_MAX_AGE :: int where
  "MARS_CACHE_MAX_AGE = 2592000"

text \<open>
  \<open>MAX_ZOOM = int(os.getenv("MARS_MAX_ZOOM", "7"))\<close>: the argument is the integer value of
  the environment variable when it is set. The functions of this module take the
  resulting \<open>MAX_ZOOM\<close> as their first argument.
\<close>

definition mars_MAX_ZOOM :: "int option \<Rightarrow> int" where
  "mars_MAX_ZOOM env = (case env of None \<Rightarrow> 7 | Some v \<Rightarrow> v)"

definition MIN_ZOOM :: int where
  "MIN_ZOOM = 0"

definition VIKING :: string where
  "VIKING = ''Mars_Viking_MDIM21_ClrMosaic_global_232m''"

definition MOLA :: string where
  "MOLA = ''Mars_MGS_MOLA_MEGR_global_463m''"

definition SUPPORTED_LAYERS :: "(string \<times> string) list" where
  "SUPPORTED_LAYERS =
     [(''mars_viking_mdim21_clrmosaic_global_232m'', VIKING),
      (''viking'', VIKING),
      (''viking color mosaic'', VIKING),
      (''mars_viking'', VIKING),
      (''mars_mgs_mola_megr_global_463m'', MOLA),
      (''mola'', MOLA),
      (''mola elevation'', MOLA),
      (''mars_mgs_mola'', MOLA)]"

definition viking_metadata :: "int \<Rightarrow> json" where
  "viking_metadata MAX_ZOOM = JObj
     [(''id'', JStr VIKING),
      (''title'', JStr ''Viking Color Mosaic''),
      (''name'', JStr ''Viking Color Mosaic''),
      (''resolution'', JStr ''232 meters/pixel''),
      (''source'', JStr ''Viking Orbiter 1 & 2''),
      (''type'', JStr ''color mosaic''),
      (''coverage'', JStr ''Global''),
      (''minZoom'', JInt MIN_ZOOM),
      (''maxZoom'', JInt MAX_ZOOM),
      (''formats'', JList [JStr ''jpg'', JStr ''png'']),
      (''aliases'', JList [JStr ''viking'', JStr ''Viking Color Mosaic'', JStr ''Mars_Viking'']),
      (''description'', JStr ''Global color mosaic of Mars surface from Viking missions'')]"

definition mola_metadata :: "int \<Rightarrow> json" where
  "mola_metadata MAX_ZOOM = JObj
     [(''id'', JStr MOLA),
      (''title'', JStr ''MOLA Elevation''),
      (''name'', JStr ''MOLA Elevation''),
      (''resolution'', JStr ''463 meters/pixel''),
      (''source'', JStr ''Mars Global Surveyor MOLA''),
      (''type'', JStr ''elevation/topography''),
      (''coverage'', JStr ''Global''),
      (''minZoom'', JInt MIN_ZOOM),
      (''maxZoom'', JInt MAX_ZOOM),
      (''formats'', JList [JStr ''jpg'', JStr ''png'']),
      (''aliases'', JList [JStr ''mola'', JStr ''MOLA Elevation'', JStr ''Mars_MGS_MOLA'']),
      (''description'',
         JStr ''Topographic elevation data from Mars Global Surveyor MOLA instrument'')]"

definition LAYER_METADATA :: "int \<Rightarrow> (string \<times> json) list" where
  "LAYER_METADATA MAX_ZOOM = [(VIKING, viking_metadata MAX_ZOOM), (MOLA, mola_metadata MAX_ZOOM)]"

definition validate_zoom_level :: "int \<Rightarrow> int \<Rightarrow> exn + unit" where
  "validate_zoom_level MAX_ZOOM z =
     (if z < MIN_ZOOM \<or> z > MAX_ZOOM then
        Inl (HTTPException 400 (JObj
          [(''error'', JStr ''invalid_zoom''),
           (''message'', JStr (''z must be between '' @ str_int MIN_ZOOM @ '' and ''
               @ str_int MAX_ZOOM @ '' for Mars tiles.'')),
           (''maxZoom'', JInt MAX_ZOOM),
           (''minZoom'', JInt MIN_ZOOM),
           (''provided'', JInt z)]))
      else Inr ())"

text \<open>
  The two subscripts \<open>LAYER_METADATA["..."]\<close> of the error are lookups of the two keys of
  the table, so they yield the two entries.
\<close>

definition normalize_layer :: "int \<Rightarrow> string \<Rightarrow> exn + string" where
  "normalize_layer MAX_ZOOM layer =
     (let normalized = lower (strip layer) in
      case map_of SUPPORTED_LAYERS normalized of
        None \<Rightarrow>
          Inl (HTTPException 422 (JObj
            [(''error'', JStr ''unsupported_layer''),
             (''message'', JStr ''Only Viking Color Mosaic and MOLA Elevation are supported.''),
             (''provided'', JStr layer),
             (''supported'', JList [viking_metadata MAX_ZOOM, mola_metadata MAX_ZOOM])]))
      | Some canonical_id \<Rightarrow> Inr canonical_id)"

definition validate_tile_coordinates :: "int \<Rightarrow> int \<Rightarrow> int \<Rightarrow> exn + unit" where
  "validate_tile_coordinates z x y =
     (if x \<ge> max_tiles z \<or> y \<ge> max_tiles z \<or> x < 0 \<or> y < 0 then
        Inl (HTTPException 400 (JObj
          [(''error'', JStr ''coordinates_out_of_bounds''),
           (''message'', JStr (''At zoom level '' @ str_int z @ '', tile indices must be 0 to ''
               @ str_int (max_tiles z - 1))),
           (''provided'', JObj [(''x'', JInt x), (''y'', JInt y), (''z'', JInt z)]),
           (''valid_range'', JObj
              [(''min'', JInt 0), (''max'', JInt (max_tiles z - 1)),
               (''tiles_per_dimension'', JInt (max_tiles z))]),
           (''celestial_body'', JStr ''Mars'')]))
      else Inr ())"

definition mars_tile_url ::
  "string \<Rightarrow> string \<Rightarrow> string \<Rightarrow> string \<Rightarrow> int \<Rightarrow> int \<Rightarrow> int \<Rightarrow> string \<Rightarrow> string" where
  "mars_tile_url canonical_layer version style tile_matrix_set z y x format =
     TREK_MARS_BASE_URL @ ''/'' @ canonical_layer @ ''/'' @ version @ ''/'' @ style @ ''/'' @
     tile_matrix_set @ ''/'' @ str_int z @ ''/'' @ str_int y @ ''/'' @ str_int x @ ''.'' @ format"

text \<open>
  The outcome of the GET. The 404 is raised inside the \<open>try\<close> and is no httpx error, so it
  leaves the handler; \<open>raise_for_status\<close> raises the \<open>HTTPStatusError\<close> that the first
  \<open>except\<close> turns into an \<open>HTTPException\<close> with the upstream's status; every request
  error, timeouts included, is an \<open>httpx.HTTPError\<close> and becomes the 502 of the second.
\<close>

definition mars_classify ::
  "int \<Rightarrow> get_result \<Rightarrow> string \<Rightarrow> string \<Rightarrow> int \<Rightarrow> int \<Rightarrow> int \<Rightarrow> string \<Rightarrow> exn + response" where
  "mars_classify MAX_ZOOM r tile_url canonical_layer z y x format =
     (case r of
        Response status_code body \<Rightarrow>
          if status_code = 404 then
            Inl (HTTPException 404 (JObj
              [(''error'', JStr ''tile_not_found''),
               (''message'', JStr ''The requested Mars tile does not exist. Check layer name or coordinates.''),
               (''requested_url'', JStr tile_url),
               (''parameters'', JObj
                  [(''layer'', JStr canonical_layer),
                   (''z'', JInt z), (''y'', JInt y), (''x'', JInt x),
                   (''format'', JStr format)]),
               (''celestial_body'', JStr ''Mars''),
               (''suggestion'', JStr ''Try a different zoom level or verify the coordinates are within Mars coverage'')]))
          else if \<not> is_success status_code then
            Inl (HTTPException status_code (JObj
              [(''error'', JStr ''trek_service_error''),
               (''message'', JStr (''NASA Trek returned HTTP '' @ str_int status_code)),
               (''requested_url'', JStr tile_url),
               (''celestial_body'', JStr ''Mars'')]))
          else
            Inr \<lparr>content = body,
                 media_type = content_type_of format,
                 headers =
                   [(''Cache-Control'', ''public, max-age='' @ str_int MARS_CACHE_MAX_AGE),
                    (''X-Tile-Source'', ''NASA-Trek-Mars''),
                    (''X-Tile-Layer'', canonical_layer),
                    (''X-Celestial-Body'', ''Mars''),
                    (''X-Zoom-Level'', str_int z),
                    (''X-Tile-Coordinates'',
                       ''z='' @ str_int z @ '',x='' @ str_int x @ '',y='' @ str_int y),
                    (''X-Max-Zoom'', str_int MAX_ZOOM),
                    (''X-Service-Version'', ''2.0.0''),
                    (''X-User'', ''Hamza-ali1223'')]\<rparr>
      | TimeoutException msg \<Rightarrow>
          Inl (HTTPException 502 (JObj
            [(''error'', JStr ''network_error''),
             (''message'', JStr (''Failed to connect to NASA Trek: '' @ msg)),
             (''requested_url'', JStr tile_url),
             (''celestial_body'', JStr ''Mars'')]))
      | RequestError msg \<Rightarrow>
          Inl (HTTPException 502 (JObj
            [(''error'', JStr ''network_error''),
             (''message'', JStr (''Failed to connect to NASA Trek: '' @ msg)),
             (''requested_url'', JStr tile_url),
             (''celestial_body'', JStr ''Mars'')]))
      | OtherError cls \<Rightarrow> Inl (Uncaught cls))"

definition get_mars_tile ::
  "int \<Rightarrow> (string \<Rightarrow> get_result) \<Rightarrow> int \<Rightarrow> int \<Rightarrow> int \<Rightarrow> string \<Rightarrow> string \<Rightarrow> string \<Rightarrow> string \<Rightarrow> string
     \<Rightarrow> string list \<Rightarrow> (exn + response) \<times> string list" where
  "get_mars_tile MAX_ZOOM client_get z y x layer version style tile_matrix_set format requested =
     (case validate_zoom_level MAX_ZOOM z of
        Inl e \<Rightarrow> (Inl e, requested)
      | Inr _ \<Rightarrow>
     (case normalize_layer MAX_ZOOM layer of
        Inl e \<Rightarrow> (Inl e, requested)
      | Inr canonical_layer \<Rightarrow>
     (case validate_tile_coordinates z x y of
        Inl e \<Rightarrow> (Inl e, requested)
      | Inr _ \<Rightarrow>
          let tile_url = mars_tile_url canonical_layer version style tile_matrix_set z y x format in
          (mars_classify MAX_ZOOM (client_get tile_url) tile_url canonical_layer z y x format,
           requested @ [tile_url]))))"

section \<open>moon_service.py\<close>

definition moon_validate_coordinates :: "int \<Rightarrow> int \<Rightarrow> int \<Rightarrow> exn + unit" where
  "moon_validate_coordinates z x y =
     (if x \<ge> max_tiles z \<or> y \<ge> max_tiles z \<or> x < 0 \<or> y < 0 then
        Inl (HTTPException 400 (JObj
          [(''error'', JStr ''Tile coordinates out of bounds''),
           (''message'', JStr (''At zoom level '' @ str_int z @ '', tile indices must be 0 to ''
               @ str_int (max_tiles z - 1))),
           (''provided'', JObj [(''x'', JInt x), (''y'', JInt y), (''z'', JInt z)]),
           (''valid_range'', JStr (''0 to '' @ str_int (max_tiles z - 1)))]))
      else Inr ())"

definition moon_tile_url ::
  "string \<Rightarrow> string \<Rightarrow> string \<Rightarrow> string \<Rightarrow> int \<Rightarrow> int \<Rightarrow> int \<Rightarrow> string \<Rightarrow> string" where
  "moon_tile_url layer version style tile_matrix_set z y x format =
     TREK_MOON_BASE_URL @ ''/'' @ layer @ ''/'' @ version @ ''/'' @ style @ ''/'' @
     tile_matrix_set @ ''/'' @ str_int z @ ''/'' @ str_int y @ ''/'' @ str_int x @ ''.'' @ format"

definition moon_classify ::
  "get_result \<Rightarrow> string \<Rightarrow> string \<Rightarrow> int \<Rightarrow> int \<Rightarrow> int \<Rightarrow> string \<Rightarrow> exn + response" where
  "moon_classify r tile_url layer z y x format =
     (case r of
        Response status_code body \<Rightarrow>
          if status_code = 404 then
            Inl (HTTPException 404 (JObj
              [(''error'', JStr ''Tile not found''),
               (''message'', JStr ''The requested tile does not exist. Check layer name or coordinates.''),
               (''requested_url'', JStr tile_url),
               (''parameters'', JObj
                  [(''layer'', JStr layer),
                   (''z'', JInt z), (''y'', JInt y), (''x'', JInt x),
                   (''format'', JStr format)])]))
          else if \<not> is_success status_code then
            Inl (HTTPException status_code (JObj
              [(''error'', JStr ''Trek service error''),
               (''message'', JStr (''NASA Trek returned HTTP '' @ str_int status_code)),
               (''requested_url'', JStr tile_url)]))
          else
            Inr \<lparr>content = body,
                 media_type = content_type_of format,
                 headers =
                   [(''Cache-Control'', ''public, max-age='' @ str_int MOON_CACHE_MAX_AGE),
                    (''X-Tile-Source'', ''NASA-Trek-Moon''),
                    (''X-Tile-Layer'', layer),
                    (''X-Zoom-Level'', str_int z)]\<rparr>
      | TimeoutException msg \<Rightarrow>
          Inl (HTTPException 502 (JObj
            [(''error'', JStr ''Network error''),
             (''message'', JStr (''Failed to connect to NASA Trek: '' @ msg)),
             (''requested_url'', JStr tile_url)]))
      | RequestError msg \<Rightarrow>
          Inl (HTTPException 502 (JObj
            [(''error'', JStr ''Network error''),
             (''message'', JStr (''Failed to connect to NASA Trek: '' @ msg)),
             (''requested_url'', JStr tile_url)]))
      | OtherError cls \<Rightarrow> Inl (Uncaught cls))"

definition get_moon_tile ::
  "(string \<Rightarrow> get_result) \<Rightarrow> int \<Rightarrow> int \<Rightarrow> int \<Rightarrow> string \<Rightarrow> string \<Rightarrow> string \<Rightarrow> string \<Rightarrow> string
     \<Rightarrow> string list \<Rightarrow> (exn + response) \<times> string list" where
  "get_moon_tile client_get z y x layer version style tile_matrix_set format requested =
     (case moon_validate_coordinates z x y of
        Inl e \<Rightarrow> (Inl e, requested)
      | Inr _ \<Rightarrow>
          let tile_url = moon_tile_url layer version style tile_matrix_set z y x format in
          (moon_classify (client_get tile_url) tile_url layer z y x format,
           requested @ [tile_url]))"

section \<open>gibs_service.py\<close>

subsection \<open>datetime\<close>

text \<open>
  A \<open>datetime\<close> value; Python compares two of them field by field, in this order.
\<close>

record datetime =
  year :: nat
  month :: nat
  day :: nat
  hour :: nat
  minute :: nat
  second :: nat
  microsecond :: nat

fun lex_gt :: "nat list \<Rightarrow> nat list \<Rightarrow> bool" where
  "lex_gt (a # as) (b # bs) = (a > b \<or> (a = b \<and> lex_gt as bs))"
| "lex_gt _ _ = False"

definition dt_fields :: "datetime \<Rightarrow> nat list" where
  "dt_fields d = [year d, month d, day d, hour d, minute d, second d, microsecond d]"

definition dt_gt :: "datetime \<Rightarrow> datetime \<Rightarrow> bool" where
  "dt_gt a b = lex_gt (dt_fields a) (dt_fields b)"

definition is_leap :: "nat \<Rightarrow> bool" where
  "is_leap y = (y mod 4 = 0 \<and> (y mod 100 \<noteq> 0 \<or> y mod 400 = 0))"

definition days_in_month :: "nat \<Rightarrow> nat \<Rightarrow> nat" where
  "days_in_month y m =
     (if m = 2 then (if is_leap y then 29 else 28)
      else if m = 4 \<or> m = 6 \<or> m = 9 \<or> m = 11 then 30 else 31)"

text \<open>The constructor \<open>datetime(year, month, day)\<close> raises \<open>ValueError\<close> outside these ranges.\<close>

definition valid_date :: "nat \<Rightarrow> nat \<Rightarrow> nat \<Rightarrow> bool" where
  "valid_date y m d =
     (1 \<le> y \<and> y \<le> 9999 \<and> 1 \<le> m \<and> m \<le> 12 \<and> 1 \<le> d \<and> d \<le> days_in_month y m)"

definition digit_val :: "char \<Rightarrow> nat option" where
  "digit_val c = map_of (zip ''0123456789'' [0, 1, 2, 3, 4, 5, 6, 7, 8, 9]) c"

definition dv :: "char \<Rightarrow> nat" where
  "dv c = (case digit_val c of Some n \<Rightarrow> n | None \<Rightarrow> 0)"

definition is_digit :: "char \<Rightarrow> bool" where
  "is_digit c = (c \<in> set ''0123456789'')"

text \<open>
  \<open>datetime.strptime(date, "%Y-%m-%d")\<close>. CPython turns the format into the regular
  expression \<open>(\d\d\d\d)-(1[0-2]|0[1-9]|[1-9])-(3[0-1]|[1-2]\d|0[1-9]|[1-9]| [1-9])\<close>,
  matches it at the start of the string, raises \<open>ValueError\<close> when it does not match or
  when text remains after the match, and then builds the date, which raises
  \<open>ValueError\<close> for a year, month or day out of range. \<open>None\<close> is the \<open>ValueError\<close>.
  The three functions below match one directive each and return its value and the rest
  of the string; the alternatives are tried in the order of the expression.
\<close>

fun match_Y :: "string \<Rightarrow> (nat \<times> string) option" where
  "match_Y (a # b # c # d # rest) =
     (if is_digit a \<and> is_digit b \<and> is_digit c \<and> is_digit d
      then Some (1000 * dv a + 100 * dv b + 10 * dv c + dv d, rest) else None)"
| "match_Y _ = None"

fun match_m :: "string \<Rightarrow> (nat \<times> string) option" where
  "match_m (a # b # rest) =
     (if a = CHR ''1'' \<and> b \<in> set ''012'' then Some (10 + dv b, rest)
      else if a = CHR ''0'' \<and> b \<in> set ''123456789'' then Some (dv b, rest)
      else if a \<in> set ''123456789'' then Some (dv a, b # rest)
      else None)"
| "match_m [a] = (if a \<in> set ''123456789'' then Some (dv a, []) else None)"
| "match_m [] = None"

fun match_d :: "string \<Rightarrow> (nat \<times> string) option" where
  "match_d (a # b # rest) =
     (if a = CHR ''3'' \<and> b \<in> set ''01'' then Some (30 + dv b, rest)
      else if a \<in> set ''12'' \<and> is_digit b then Some (10 * dv a + dv b, rest)
      else if a = CHR ''0'' \<and> b \<in> set ''123456789'' then Some (dv b, rest)
      else if a \<in> set ''123456789'' then Some (dv a, b # rest)
      else if a = CHR '' '' \<and> b \<in> set ''123456789'' then Some (dv b, rest)
      else None)"
| "match_d [a] = (if a \<in> set ''123456789'' then Some (dv a, []) else None)"
| "match_d [] = None"

fun expect_dash :: "string \<Rightarrow> string option" where
  "expect_dash (c # rest) = (if c = CHR ''-'' then Some rest else None)"
| "expect_dash [] = None"

definition strptime :: "string \<Rightarrow> datetime option" where
  "strptime date =
     (case match_Y date of None \<Rightarrow> None | Some (y, r1) \<Rightarrow>
      case expect_dash r1 of None \<Rightarrow> None | Some r2 \<Rightarrow>
      case match_m r2 of None \<Rightarrow> None | Some (m, r3) \<Rightarrow>
      case expect_dash r3 of None \<Rightarrow> None | Some r4 \<Rightarrow>
      case match_d r4 of None \<Rightarrow> None | Some (d, r5) \<Rightarrow>
        if r5 \<noteq> [] then None
        else if valid_date y m d
        then Some \<lparr>year = y, month = m, day = d, hour = 0, minute = 0, second = 0,
                   microsecond = 0\<rparr>
        else None)"

definition zfill :: "nat \<Rightarrow> string \<Rightarrow> string" where
  "zfill w s = replicate (w - length s) (CHR ''0'') @ s"

text \<open>\<open>strftime('%Y-%m-%d')\<close>\<close>

definition strftime :: "datetime \<Rightarrow> string" where
  "strftime d = zfill 4 (str_nat (year d)) @ ''-'' @ zfill 2 (str_nat (month d)) @ ''-'' @
                zfill 2 (str_nat (day d))"

subsection \<open>The handler\<close>

text \<open>Step 1 of \<open>get_earth_tile\<close>; \<open>utcnow\<close> is the value of \<open>datetime.utcnow()\<close>.\<close>

definition earth_validate_date :: "datetime \<Rightarrow> string \<Rightarrow> exn + unit" where
  "earth_validate_date utcnow date =
     (case strptime date of
        None \<Rightarrow>
          Inl (HTTPException 400 (JObj
            [(''error'', JStr ''Invalid date format''),
             (''message'', JStr ''Date must be in YYYY-MM-DD format''),
             (''provided'', JStr date),
             (''example'', JStr ''2025-10-03'')]))
      | Some parsed_date \<Rightarrow>
          if dt_gt parsed_date utcnow then
            Inl (HTTPException 400 (JObj
              [(''error'', JStr ''Invalid date''),
               (''message'', JStr (''Date cannot be in the future. Current UTC date: ''
                   @ strftime utcnow)),
               (''provided'', JStr date)]))
          else Inr ())"

text \<open>Step 2.\<close>

definition earth_validate_coordinates :: "int \<Rightarrow> int \<Rightarrow> int \<Rightarrow> exn + unit" where
  "earth_validate_coordinates z x y =
     (if x \<ge> max_tiles z \<or> y \<ge> max_tiles z \<or> x < 0 \<or> y < 0 then
        Inl (HTTPException 400 (JObj
          [(''error'', JStr ''Tile coordinates out of bounds''),
           (''message'', JStr (''At zoom level '' @ str_int z @ '', tile indices must be 0 to ''
               @ str_int (max_tiles z - 1))),
           (''provided'', JObj [(''x'', JInt x), (''y'', JInt y), (''z'', JInt z)]),
           (''valid_range'', JStr (''0 to '' @ str_int (max_tiles z - 1)))]))
      else Inr ())"

text \<open>Step 3.\<close>

definition earth_tile_url ::
  "string \<Rightarrow> string \<Rightarrow> string \<Rightarrow> int \<Rightarrow> int \<Rightarrow> int \<Rightarrow> string \<Rightarrow> string" where
  "earth_tile_url layer date tile_matrix_set z y x format =
     GIBS_BASE_URL @ ''/'' @ layer @ ''/default/'' @ date @ ''/'' @
     tile_matrix_set @ ''/'' @ str_int z @ ''/'' @ str_int y @ ''/'' @ str_int x @ ''.'' @ format"

text \<open>Steps 4 and 5.\<close>

definition earth_classify ::
  "get_result \<Rightarrow> string \<Rightarrow> string \<Rightarrow> string \<Rightarrow> int \<Rightarrow> int \<Rightarrow> int \<Rightarrow> string \<Rightarrow> exn + response" where
  "earth_classify r tile_url layer date z y x format =
     (case r of
        Response status_code body \<Rightarrow>
          if status_code = 404 then
            Inl (HTTPException 404 (JObj
              [(''error'', JStr ''Tile not found''),
               (''message'', JStr ''The requested tile does not exist. Check layer name, date, or coordinates.''),
               (''requested_url'', JStr tile_url),
               (''parameters'', JObj
                  [(''layer'', JStr layer), (''date'', JStr date),
                   (''z'', JInt z), (''y'', JInt y), (''x'', JInt x),
                   (''format'', JStr format)])]))
          else if \<not> is_success status_code then
            Inl (HTTPException status_code (JObj
              [(''error'', JStr ''GIBS service error''),
               (''message'', JStr (''NASA GIBS returned HTTP '' @ str_int status_code)),
               (''requested_url'', JStr tile_url)]))
          else
            Inr \<lparr>content = body,
                 media_type = content_type_of format,
                 headers =
                   [(''Cache-Control'', ''public, max-age='' @ str_int EARTH_CACHE_MAX_AGE),
                    (''X-Tile-Source'', ''NASA-GIBS''),
                    (''X-Tile-Layer'', layer),
                    (''X-Tile-Date'', date),
                    (''X-Zoom-Level'', str_int z)]\<rparr>
      | TimeoutException msg \<Rightarrow>
          Inl (HTTPException 502 (JObj
            [(''error'', JStr ''Network error''),
             (''message'', JStr (''Failed to connect to NASA GIBS: '' @ msg)),
             (''requested_url'', JStr tile_url)]))
      | RequestError msg \<Rightarrow>
          Inl (HTTPException 502 (JObj
            [(''error'', JStr ''Network error''),
             (''message'', JStr (''Failed to connect to NASA GIBS: '' @ msg)),
             (''requested_url'', JStr tile_url)]))
      | OtherError cls \<Rightarrow> Inl (Uncaught cls))"

definition get_earth_tile ::
  "datetime \<Rightarrow> (string \<Rightarrow> get_result) \<Rightarrow> string \<Rightarrow> string \<Rightarrow> int \<Rightarrow> int \<Rightarrow> int \<Rightarrow> string \<Rightarrow> string
     \<Rightarrow> string list \<Rightarrow> (exn + response) \<times> string list" where
  "get_earth_tile utcnow client_get layer date z y x tile_matrix_set format requested =
     (case earth_validate_date utcnow date of
        Inl e \<Rightarrow> (Inl e, requested)
      | Inr _ \<Rightarrow>
     (case earth_validate_coordinates z x y of
        Inl e \<Rightarrow> (Inl e, requested)
      | Inr _ \<Rightarrow>
          let tile_url = earth_tile_url layer date tile_matrix_set z y x format in
          (earth_classify (client_get tile_url) tile_url layer date z y x format,
           requested @ [tile_url])))"

section \<open>The declared query constraints\<close>

text \<open>
  The signatures of the four handlers declare constraints on their query parameters
  (\<open>Query(..., ge=0, le=EARTH_MAX_ZOOM)\<close>, \<open>regex=...\<close>). The framework checks them before
  it calls the handler body and answers a request that breaks one with its own
  validation error (status 422), naming the parameters. Each \<open>_query\<close> function below is
  that check for one route, the parameters in the order of the signature; each \<open>_route\<close>
  is the check followed by the handler body. The patterns are anchored at both ends.
\<close>

definition date_pattern :: "string \<Rightarrow> bool" where
  "date_pattern s =
     (case s of
        [a, b, c, d, e, f, g, h, i, j] \<Rightarrow>
          is_digit a \<and> is_digit b \<and> is_digit c \<and> is_digit d \<and> e = CHR ''-'' \<and>
          is_digit f \<and> is_digit g \<and> h = CHR ''-'' \<and> is_digit i \<and> is_digit j
      | _ \<Rightarrow> False)"

definition violations :: "(string \<times> bool) list \<Rightarrow> exn + unit" where
  "violations checks =
     (case map fst (filter (\<lambda>(name, ok). \<not> ok) checks) of
        [] \<Rightarrow> Inr ()
      | names \<Rightarrow> Inl (RequestValidationError names))"

definition earth_query :: "string \<Rightarrow> int \<Rightarrow> int \<Rightarrow> int \<Rightarrow> string \<Rightarrow> exn + unit" where
  "earth_query date z y x format =
     violations
       [(''date'', date_pattern date),
        (''z'', 0 \<le> z \<and> z \<le> EARTH_MAX_ZOOM),
        (''y'', 0 \<le> y),
        (''x'', 0 \<le> x),
        (''format'', format \<in> set [''jpg'', ''jpeg'', ''png'', ''png8''])]"

definition moon_query :: "int \<Rightarrow> int \<Rightarrow> int \<Rightarrow> string \<Rightarrow> exn + unit" where
  "moon_query z y x format =
     violations
       [(''z'', 0 \<le> z \<and> z \<le> MOON_MAX_ZOOM),
        (''y'', 0 \<le> y),
        (''x'', 0 \<le> x),
        (''format'', format \<in> set [''jpg'', ''jpeg'', ''png'', ''tif'', ''tiff''])]"

definition mars_query :: "int \<Rightarrow> int \<Rightarrow> int \<Rightarrow> string \<Rightarrow> exn + unit" where
  "mars_query z y x format =
     violations
       [(''z'', MIN_ZOOM \<le> z),
        (''y'', 0 \<le> y),
        (''x'', 0 \<le> x),
        (''format'', format \<in> set [''jpg'', ''jpeg'', ''png'', ''tif'', ''tiff''])]"

definition mercury_query :: "int \<Rightarrow> int \<Rightarrow> int \<Rightarrow> exn + unit" where
  "mercury_query z x y =
     violations [(''z'', 0 \<le> z), (''x'', 0 \<le> x), (''y'', 0 \<le> y)]"

definition earth_route ::
  "datetime \<Rightarrow> (string \<Rightarrow> get_result) \<Rightarrow> string \<Rightarrow> string \<Rightarrow> int \<Rightarrow> int \<Rightarrow> int \<Rightarrow> string \<Rightarrow> string
     \<Rightarrow> string list \<Rightarrow> (exn + response) \<times> string list" where
  "earth_route utcnow client_get layer date z y x tile_matrix_set format requested =
     (case earth_query date z y x format of
        Inl e \<Rightarrow> (Inl e, requested)
      | Inr _ \<Rightarrow>
          get_earth_tile utcnow client_get layer date z y x tile_matrix_set format requested)"

definition moon_route ::
  "(string \<Rightarrow> get_result) \<Rightarrow> int \<Rightarrow> int \<Rightarrow> int \<Rightarrow> string \<Rightarrow> string \<Rightarrow> string \<Rightarrow> string \<Rightarrow> string
     \<Rightarrow> string list \<Rightarrow> (exn + response) \<times> string list" where
  "moon_route client_get z y x layer version style tile_matrix_set format requested =
     (case moon_query z y x format of
        Inl e \<Rightarrow> (Inl e, requested)
      | Inr _ \<Rightarrow>
          get_moon_tile client_get z y x layer version style tile_matrix_set format requested)"

definition mars_route ::
  "int \<Rightarrow> (string \<Rightarrow> get_result) \<Rightarrow> int \<Rightarrow> int \<Rightarrow> int \<Rightarrow> string \<Rightarrow> string \<Rightarrow> string \<Rightarrow> string \<Rightarrow> string
     \<Rightarrow> string list \<Rightarrow> (exn + response) \<times> string list" where
  "mars_route MAX_ZOOM client_get z y x layer version style tile_matrix_set format requested =
     (case mars_query z y x format of
        Inl e \<Rightarrow> (Inl e, requested)
      | Inr _ \<Rightarrow>
          get_mars_tile MAX_ZOOM client_get z y x layer version style tile_matrix_set format
            requested)"

definition mercury_route ::
  "(string \<Rightarrow> get_result) \<Rightarrow> int \<Rightarrow> int \<Rightarrow> int \<Rightarrow> string \<Rightarrow> string \<Rightarrow> string \<Rightarrow> string \<Rightarrow> string
     \<Rightarrow> string list \<Rightarrow> (exn + response) \<times> string list" where
  "mercury_route client_get z x y layer version style TileMatrixSet format requested =
     (case mercury_query z x y of
        Inl e \<Rightarrow> (Inl e, requested)
      | Inr _ \<Rightarrow>
          get_mercury_tile client_get z x y layer version style TileMatrixSet format requested)"

section \<open>The four handlers side by side\<close>

datatype body = Earth | Moon | Mars | Mercury

text \<open>
  The zoom check of each handler body: Mars calls \<open>validate_zoom_level\<close>, Mercury has its
  step 2, and the bodies of the Earth and Moon handlers have none.
\<close>

definition zoom_check :: "body \<Rightarrow> int \<Rightarrow> int \<Rightarrow> exn + unit" where
  "zoom_check b MAX_ZOOM z =
     (case b of
        Earth \<Rightarrow> Inr ()
      | Moon \<Rightarrow> Inr ()
      | Mars \<Rightarrow> validate_zoom_level MAX_ZOOM z
      | Mercury \<Rightarrow> mercury_validate_zoom z)"

text \<open>The coordinate check of each handler body.\<close>

definition coordinate_check :: "body \<Rightarrow> int \<Rightarrow> int \<Rightarrow> int \<Rightarrow> exn + unit" where
  "coordinate_check b z x y =
     (case b of
        Earth \<Rightarrow> earth_validate_coordinates z x y
      | Moon \<Rightarrow> moon_validate_coordinates z x y
      | Mars \<Rightarrow> validate_tile_coordinates z x y
      | Mercury \<Rightarrow> mercury_validate_coordinates z x y)"

text \<open>The constraint that each signature declares on \<open>z\<close>, as the \<open>_query\<close> functions check it.\<close>

definition declared_zoom :: "body \<Rightarrow> int \<Rightarrow> bool" where
  "declared_zoom b z =
     (case b of
        Earth \<Rightarrow> 0 \<le> z \<and> z \<le> EARTH_MAX_ZOOM
      | Moon \<Rightarrow> 0 \<le> z \<and> z \<le> MOON_MAX_ZOOM
      | Mars \<Rightarrow> MIN_ZOOM \<le> z
      | Mercury \<Rightarrow> 0 \<le> z)"

text \<open>The status with which an exception leaves the service.\<close>

fun status_of :: "exn \<Rightarrow> int" where
  "status_of (HTTPException status_code d) = status_code"
| "status_of (RequestValidationError names) = 422"
| "status_of (Uncaught cls) = 500"

fun kind_of :: "exn \<Rightarrow> string option" where
  "kind_of (HTTPException status_code d) = error_of d"
| "kind_of _ = None"

text \<open>The classification of the upstream outcome in each handler body.\<close>

definition classify ::
  "body \<Rightarrow> int \<Rightarrow> get_result \<Rightarrow> string \<Rightarrow> string \<Rightarrow> string \<Rightarrow> string \<Rightarrow> int \<Rightarrow> int \<Rightarrow> int
     \<Rightarrow> string \<Rightarrow> string \<Rightarrow> string \<Rightarrow> exn + response" where
  "classify b MAX_ZOOM r tile_url layer date version z y x style tile_matrix_set format =
     (case b of
        Earth \<Rightarrow> earth_classify r tile_url layer date z y x format
      | Moon \<Rightarrow> moon_classify r tile_url layer z y x format
      | Mars \<Rightarrow> mars_classify MAX_ZOOM r tile_url layer z y x format
      | Mercury \<Rightarrow> mercury_classify r tile_url layer version z y x style tile_matrix_set format)"

text \<open>
  The status and the kind of what a handler produces; a \<open>Response\<close> built without a
  status code is a 200.
\<close>

definition status_of_result :: "exn + response \<Rightarrow> int" where
  "status_of_result r = (case r of Inl e \<Rightarrow> status_of e | Inr resp \<Rightarrow> 200)"

definition kind_of_result :: "exn + response \<Rightarrow> string option" where
  "kind_of_result r = (case r of Inl e \<Rightarrow> kind_of e | Inr resp \<Rightarrow> None)"

section \<open>The specification's words\<close>

text \<open>
  The tile-matrix shape \<open>(maxCols, maxRows)\<close> and the zoom bounds as the specification
  states them, to compare the handlers with.
\<close>

definition spec_tileMatrixShape :: "body \<Rightarrow> int \<Rightarrow> int \<times> int" where
  "spec_tileMatrixShape b z =
     (if b = Mercury then (2 ^ nat (z + 1), 2 ^ nat z) else (2 ^ nat z, 2 ^ nat z))"

definition spec_maxCols :: "body \<Rightarrow> int \<Rightarrow> int" where
  "spec_maxCols b z = fst (spec_tileMatrixShape b z)"

definition spec_maxRows :: "body \<Rightarrow> int \<Rightarrow> int" where
  "spec_maxRows b z = snd (spec_tileMatrixShape b z)"

definition spec_minZoom :: int where
  "spec_minZoom = 0"

definition spec_maxZoom :: "body \<Rightarrow> int \<Rightarrow> int" where
  "spec_maxZoom b MAX_ZOOM =
     (case b of Earth \<Rightarrow> 9 | Moon \<Rightarrow> 10 | Mars \<Rightarrow> MAX_ZOOM | Mercury \<Rightarrow> 7)"

definition spec_zoom_in_range :: "body \<Rightarrow> int \<Rightarrow> int \<Rightarrow> bool" where
  "spec_zoom_in_range b MAX_ZOOM z = (spec_minZoom \<le> z \<and> z \<le> spec_maxZoom b MAX_ZOOM)"

definition spec_in_matrix :: "body \<Rightarrow> int \<Rightarrow> int \<Rightarrow> int \<Rightarrow> bool" where
  "spec_in_matrix b z row col =
     (0 \<le> row \<and> row < spec_maxRows b z \<and> 0 \<le> col \<and> col < spec_maxCols b z)"

definition spec_coordinates_valid :: "body \<Rightarrow> int \<Rightarrow> int \<Rightarrow> int \<Rightarrow> int \<Rightarrow> bool" where
  "spec_coordinates_valid b MAX_ZOOM z row col =
     (spec_in_matrix b z row col \<and> spec_zoom_in_range b MAX_ZOOM z)"

text \<open>
  The aliases of the two Mars layers after trimming and lower-casing: the keys of
  \<open>SUPPORTED_LAYERS\<close>, by the layer they stand for.
\<close>

definition viking_aliases :: "string set" where
  "viking_aliases = {''mars_viking_mdim21_clrmosaic_global_232m'', ''viking'',
                     ''viking color mosaic'', ''mars_viking''}"

definition mola_aliases :: "string set" where
  "mola_aliases = {''mars_mgs_mola_megr_global_463m'', ''mola'', ''mola elevation'',
                   ''mars_mgs_mola''}"

text \<open>
  A real calendar date in the form YYYY-MM-DD: four digits, two digits and two digits,
  separated by dashes, that name a day of the calendar. The result is the year, the
  month and the day.
\<close>

definition spec_calendar_date :: "string \<Rightarrow> (nat \<times> nat \<times> nat) option" where
  "spec_calendar_date s =
     (case s of
        [a, b, c, d, e, f, g, h, i, j] \<Rightarrow>
          if is_digit a \<and> is_digit b \<and> is_digit c \<and> is_digit d \<and> e = CHR ''-'' \<and>
             is_digit f \<and> is_digit g \<and> h = CHR ''-'' \<and> is_digit i \<and> is_digit j \<and>
             valid_date (1000 * dv a + 100 * dv b + 10 * dv c + dv d) (10 * dv f + dv g)
               (10 * dv i + dv j)
          then Some (1000 * dv a + 100 * dv b + 10 * dv c + dv d, 10 * dv f + dv g,
                     10 * dv i + dv j)
          else None
      | _ \<Rightarrow> None)"

text \<open>The calendar date of a clock reading, and "strictly later" on calendar dates.\<close>

definition date_of :: "datetime \<Rightarrow> nat \<times> nat \<times> nat" where
  "date_of t = (year t, month t, day t)"

fun spec_date_after :: "nat \<times> nat \<times> nat \<Rightarrow> nat \<times> nat \<times> nat \<Rightarrow> bool" where
  "spec_date_after (y, m, d) (y', m', d') =
     (y > y' \<or> (y = y' \<and> (m > m' \<or> (m = m' \<and> d > d'))))"

text \<open>The segments of a path, joined by \<open>/\<close>.\<close>

fun spec_join :: "string list \<Rightarrow> string" where
  "spec_join [] = []"
| "spec_join [s] = s"
| "spec_join (s # t # ss) = s @ ''/'' @ spec_join (t # ss)"

section \<open>Sample inputs\<close>

text \<open>A clock reading and an upstream that always answers 200, for the concrete cases.\<close>

definition sample_utcnow :: datetime where
  "sample_utcnow =
     \<lparr>year = 2025, month = 11, day = 1, hour = 12, minute = 30, second = 0, microsecond = 0\<rparr>"

definition sample_upstream :: "string \<Rightarrow> get_result" where
  "sample_upstream tile_url = Response 200 ''bytes''"

text \<open>An upstream that answers 204 with no body, and one that times out.\<close>

definition upstream_204 :: "string \<Rightarrow> get_result" where
  "upstream_204 tile_url = Response 204 []"

definition upstream_timeout :: "string \<Rightarrow> get_result" where
  "upstream_timeout tile_url = TimeoutException ''timed out''"

section \<open>Properties\<close>

lemmas lower_eval = lower_def lower_char_def upper_letters_def lower_letters_def

lemmas str_int_eval = str_int_def str_nat.simps

subsection \<open>Mercury: the format check\<close>

lemma content_type_of_jpg:
  "lower format = ''jpg'' \<Longrightarrow> content_type_of format = ''image/jpeg''"
  by (auto simp: content_type_of_def CONTENT_TYPE_MAP_def lower_eval split: if_splits)

lemma mercury_zoom_ok: "mercury_validate_zoom z = Inr () \<longleftrightarrow> 0 \<le> z \<and> z \<le> 7"
  by (auto simp: mercury_validate_zoom_def mercury_MAX_ZOOM_def)

lemma mercury_coordinates_ok:
  "mercury_validate_coordinates z x y = Inr () \<longleftrightarrow>
     0 \<le> x \<and> x < 2 ^ nat (z + 1) \<and> 0 \<le> y \<and> y < 2 ^ nat z"
  by (auto simp: mercury_validate_coordinates_def max_tile_col_def max_tile_row_def)

lemma get_mercury_tile_valid:
  assumes "lower format = ''jpg''" "0 \<le> z" "z \<le> 7" "0 \<le> x" "x < 2 ^ nat (z + 1)"
    "0 \<le> y" "y < 2 ^ nat z"
  shows "get_mercury_tile client_get z x y layer version style TileMatrixSet format requested =
     (mercury_classify
        (client_get (mercury_tile_url layer version style TileMatrixSet z y x format))
        (mercury_tile_url layer version style TileMatrixSet z y x format)
        layer version z y x style TileMatrixSet format,
      requested @ [mercury_tile_url layer version style TileMatrixSet z y x format])"
proof -
  have f: "mercury_validate_format format = Inr ()"
    using assms(1) by (simp add: mercury_validate_format_def)
  have zz: "mercury_validate_zoom z = Inr ()"
    using assms(2,3) by (simp add: mercury_zoom_ok)
  have c: "mercury_validate_coordinates z x y = Inr ()"
    using assms(4-7) by (simp add: mercury_coordinates_ok)
  show ?thesis
    by (simp add: get_mercury_tile_def f zz c Let_def)
qed

text \<open>
  C10. The Mercury format check is case-insensitive: every format whose lower-casing is
  \<open>jpg\<close> (such as \<open>JPG\<close>) passes it; for a request that is valid otherwise the upstream
  URL ends in the caller's own spelling of the format, and on an upstream 200 the response
  has the media type \<open>image/jpeg\<close>, from the table for \<open>jpg\<close> itself and from its default
  for every other spelling.
\<close>

theorem mercury_format_case_insensitive:
  assumes "lower format = ''jpg''"
    and "0 \<le> z" and "z \<le> 7" and "0 \<le> x" and "x < 2 ^ nat (z + 1)" and "0 \<le> y" and "y < 2 ^ nat z"
    and "client_get (TREK_MERCURY_BASE_URL @ ''/'' @ layer @ ''/'' @ version @ ''/'' @ style
           @ ''/'' @ TileMatrixSet @ ''/'' @ str_int z @ ''/'' @ str_int y @ ''/'' @ str_int x
           @ ''.'' @ format) = Response 200 body"
  shows "mercury_validate_format format = Inr () \<and>
     (\<exists>hs. get_mercury_tile client_get z x y layer version style TileMatrixSet format requested =
        (Inr \<lparr>content = body, media_type = ''image/jpeg'', headers = hs\<rparr>,
         requested @ [TREK_MERCURY_BASE_URL @ ''/'' @ layer @ ''/'' @ version @ ''/'' @ style
           @ ''/'' @ TileMatrixSet @ ''/'' @ str_int z @ ''/'' @ str_int y @ ''/'' @ str_int x
           @ ''.'' @ format]))"
proof -
  have u: "mercury_tile_url layer version style TileMatrixSet z y x format =
      TREK_MERCURY_BASE_URL @ ''/'' @ layer @ ''/'' @ version @ ''/'' @ style
           @ ''/'' @ TileMatrixSet @ ''/'' @ str_int z @ ''/'' @ str_int y @ ''/'' @ str_int x
           @ ''.'' @ format"
    by (simp add: mercury_tile_url_def)
  have f: "mercury_validate_format format = Inr ()"
    using assms(1) by (simp add: mercury_validate_format_def)
  have ct: "content_type_of format = ''image/jpeg''"
    using assms(1) by (rule content_type_of_jpg)
  have g: "get_mercury_tile client_get z x y layer version style TileMatrixSet format requested =
     (mercury_classify (Response 200 body)
        (mercury_tile_url layer version style TileMatrixSet z y x format)
        layer version z y x style TileMatrixSet format,
      requested @ [mercury_tile_url layer version style TileMatrixSet z y x format])"
    using get_mercury_tile_valid [OF assms(1-7)] assms(8) u by simp
  show ?thesis
    using f g ct u by (simp add: mercury_classify_def)
qed

theorem mercury_format_case_insensitive_witness:
  "lower ''JPG'' = ''jpg'' \<and> mercury_validate_format ''JPG'' = Inr () \<and>
     (\<exists>hs. get_mercury_tile (\<lambda>u. Response 200 ''bytes'') 3 8 4 ''L'' ''1.0.0'' ''default''
        ''default028mm'' ''JPG'' [] =
        (Inr \<lparr>content = ''bytes'', media_type = ''image/jpeg'', headers = hs\<rparr>,
         [''https://trek.nasa.gov/tiles/Mercury/EQ/L/1.0.0/default/default028mm/3/4/8.JPG'']))"
proof -
  have h: "lower ''JPG'' = ''jpg''" by (simp add: lower_eval)
  have t: "mercury_validate_format ''JPG'' = Inr () \<and>
     (\<exists>hs. get_mercury_tile (\<lambda>u. Response 200 ''bytes'') 3 8 4 ''L'' ''1.0.0'' ''default''
        ''default028mm'' ''JPG'' [] =
        (Inr \<lparr>content = ''bytes'', media_type = ''image/jpeg'', headers = hs\<rparr>,
         [] @ [TREK_MERCURY_BASE_URL @ ''/'' @ ''L'' @ ''/'' @ ''1.0.0'' @ ''/'' @ ''default''
           @ ''/'' @ ''default028mm'' @ ''/'' @ str_int 3 @ ''/'' @ str_int 4 @ ''/'' @ str_int 8
           @ ''.'' @ ''JPG'']))"
    by (rule mercury_format_case_insensitive [OF h]) simp_all
  have e: "[] @ [TREK_MERCURY_BASE_URL @ ''/'' @ ''L'' @ ''/'' @ ''1.0.0'' @ ''/'' @ ''default''
           @ ''/'' @ ''default028mm'' @ ''/'' @ str_int 3 @ ''/'' @ str_int 4 @ ''/'' @ str_int 8
           @ ''.'' @ ''JPG''] =
     [''https://trek.nasa.gov/tiles/Mercury/EQ/L/1.0.0/default/default028mm/3/4/8.JPG'']"
    by (simp add: TREK_MERCURY_BASE_URL_def str_int_eval)
  show ?thesis using h t unfolding e by blast
qed

subsection \<open>The coordinate checks and the tile matrix\<close>

lemma earth_coordinates_ok:
  "earth_validate_coordinates z x y = Inr () \<longleftrightarrow>
     0 \<le> x \<and> x < 2 ^ nat z \<and> 0 \<le> y \<and> y < 2 ^ nat z"
  by (auto simp: earth_validate_coordinates_def max_tiles_def)

lemma moon_coordinates_ok:
  "moon_validate_coordinates z x y = Inr () \<longleftrightarrow>
     0 \<le> x \<and> x < 2 ^ nat z \<and> 0 \<le> y \<and> y < 2 ^ nat z"
  by (auto simp: moon_validate_coordinates_def max_tiles_def)

lemma mars_coordinates_ok:
  "validate_tile_coordinates z x y = Inr () \<longleftrightarrow>
     0 \<le> x \<and> x < 2 ^ nat z \<and> 0 \<le> y \<and> y < 2 ^ nat z"
  by (auto simp: validate_tile_coordinates_def max_tiles_def)

lemma mars_zoom_ok: "validate_zoom_level MAX_ZOOM z = Inr () \<longleftrightarrow> 0 \<le> z \<and> z \<le> MAX_ZOOM"
  by (auto simp: validate_zoom_level_def MIN_ZOOM_def)

lemmas spec_shape_defs = spec_in_matrix_def spec_maxCols_def spec_maxRows_def
  spec_tileMatrixShape_def

lemma coordinate_check_ok:
  "coordinate_check b z x y = Inr () \<longleftrightarrow> spec_in_matrix b z y x"
  by (cases b)
     (auto simp: coordinate_check_def spec_shape_defs earth_coordinates_ok moon_coordinates_ok
        mars_coordinates_ok mercury_coordinates_ok)

lemma coordinate_check_error:
  "\<not> spec_in_matrix b z y x \<Longrightarrow>
     \<exists>d. coordinate_check b z x y = Inl (HTTPException 400 d) \<and>
         error_of d \<in> {Some ''Tile coordinates out of bounds'', Some ''coordinates_out_of_bounds'',
                        Some ''X coordinate out of bounds'', Some ''Y coordinate out of bounds''}"
proof (cases b)
  case Earth
  assume "\<not> spec_in_matrix b z y x"
  with Earth show ?thesis
    by (simp add: coordinate_check_def spec_shape_defs earth_validate_coordinates_def
        max_tiles_def) linarith
next
  case Moon
  assume "\<not> spec_in_matrix b z y x"
  with Moon show ?thesis
    by (simp add: coordinate_check_def spec_shape_defs moon_validate_coordinates_def
        max_tiles_def) linarith
next
  case Mars
  assume "\<not> spec_in_matrix b z y x"
  with Mars show ?thesis
    by (simp add: coordinate_check_def spec_shape_defs validate_tile_coordinates_def
        max_tiles_def) linarith
next
  case Mercury
  assume "\<not> spec_in_matrix b z y x"
  with Mercury show ?thesis
    by (simp add: coordinate_check_def spec_shape_defs mercury_validate_coordinates_def
        max_tile_col_def max_tile_row_def) linarith
qed

lemma mercury_x_out_of_bounds:
  assumes "lower format = ''jpg''" "0 \<le> z" "z \<le> 7" "x < 0 \<or> 2 ^ nat (z + 1) \<le> x"
  shows "\<exists>d. get_mercury_tile client_get z x y layer version style TileMatrixSet format requested
             = (Inl (HTTPException 400 d), requested)
           \<and> error_of d = Some ''X coordinate out of bounds''
           \<and> field_of ''tile_matrix'' d =
               Some (JStr (str_int (2 ^ nat (z + 1)) @ [CHR 0xD7] @ str_int (2 ^ nat z)))"
proof -
  have f: "mercury_validate_format format = Inr ()"
    using assms(1) by (simp add: mercury_validate_format_def)
  have zz: "mercury_validate_zoom z = Inr ()"
    using assms(2,3) by (simp add: mercury_zoom_ok)
  show ?thesis
    using assms(4)
    by (auto simp add: get_mercury_tile_def f zz mercury_validate_coordinates_def
        max_tile_col_def max_tile_row_def tile_matrix_def)
qed

text \<open>
  C2. For every zoom \<open>z \<ge> 0\<close> (so for every zoom within a body's bounds) the coordinate
  check of a handler accepts exactly the columns \<open>0 \<le> x < maxCols\<close> and the rows
  \<open>0 \<le> y < maxRows\<close> of the shape \<open>(2^z, 2^z)\<close> for Earth, Moon and Mars and
  \<open>(2^(z+1), 2^z)\<close> for Mercury; and a Mercury request with a column at or beyond
  \<open>maxCols\<close> is answered with the 400 "X coordinate out of bounds", whose
  \<open>tile_matrix\<close> reads maxCols, the multiplication sign, maxRows: 16, sign, 8 at zoom 3 with
  \<open>x = 16\<close>.
\<close>

theorem tile_matrix_shape:
  assumes "0 \<le> z"
  shows "(coordinate_check b z x y = Inr () \<longleftrightarrow>
            0 \<le> x \<and> x < fst (spec_tileMatrixShape b z) \<and>
            0 \<le> y \<and> y < snd (spec_tileMatrixShape b z))
       \<and> (b = Mercury \<and> z \<le> 7 \<and> lower format = ''jpg'' \<and> fst (spec_tileMatrixShape b z) \<le> x \<longrightarrow>
            (\<exists>d. get_mercury_tile client_get z x y layer version style TileMatrixSet format
                     requested
                   = (Inl (HTTPException 400 d), requested)
                 \<and> error_of d = Some ''X coordinate out of bounds''
                 \<and> field_of ''tile_matrix'' d =
                     Some (JStr (str_int (fst (spec_tileMatrixShape b z)) @ [CHR 0xD7] @
                                 str_int (snd (spec_tileMatrixShape b z))))))"
proof (intro conjI impI)
  show "coordinate_check b z x y = Inr () \<longleftrightarrow>
          0 \<le> x \<and> x < fst (spec_tileMatrixShape b z) \<and>
          0 \<le> y \<and> y < snd (spec_tileMatrixShape b z)"
    by (auto simp: coordinate_check_ok spec_in_matrix_def spec_maxCols_def spec_maxRows_def)
next
  assume h: "b = Mercury \<and> z \<le> 7 \<and> lower format = ''jpg'' \<and> fst (spec_tileMatrixShape b z) \<le> x"
  then have bm: "b = Mercury" and f: "lower format = ''jpg''" and z7: "z \<le> 7"
    and le: "fst (spec_tileMatrixShape b z) \<le> x" by blast+
  have s: "spec_tileMatrixShape b z = (2 ^ nat (z + 1), 2 ^ nat z)"
    using bm by (simp add: spec_tileMatrixShape_def)
  have x: "x < 0 \<or> 2 ^ nat (z + 1) \<le> x"
    using le by (simp add: s)
  show "\<exists>d. get_mercury_tile client_get z x y layer version style TileMatrixSet format requested
              = (Inl (HTTPException 400 d), requested)
            \<and> error_of d = Some ''X coordinate out of bounds''
            \<and> field_of ''tile_matrix'' d =
                Some (JStr (str_int (fst (spec_tileMatrixShape b z)) @ [CHR 0xD7] @
                            str_int (snd (spec_tileMatrixShape b z))))"
    using mercury_x_out_of_bounds [OF f assms z7 x] by (simp add: s)
qed

theorem tile_matrix_shape_witness:
  "(0::int) \<le> 3 \<and> spec_tileMatrixShape Mercury 3 = (16, 8) \<and>
   coordinate_check Mercury 3 16 4 \<noteq> Inr () \<and>
   (\<exists>d. get_mercury_tile (\<lambda>u. Response 200 ''bytes'') 3 16 4 ''L'' ''1.0.0'' ''default''
            ''default028mm'' ''jpg'' []
          = (Inl (HTTPException 400 d), [])
        \<and> error_of d = Some ''X coordinate out of bounds''
        \<and> field_of ''tile_matrix'' d = Some (JStr (''16'' @ [CHR 0xD7] @ ''8'')))"
proof -
  have z: "(0::int) \<le> 3" by simp
  have s: "spec_tileMatrixShape Mercury 3 = (16, 8)"
    by (simp add: spec_tileMatrixShape_def)
  have l: "lower ''jpg'' = ''jpg''" by (simp add: lower_eval)
  note t = tile_matrix_shape [OF z, of Mercury 16 4 "''jpg''" "\<lambda>u. Response 200 ''bytes''"
      "''L''" "''1.0.0''" "''default''" "''default028mm''" "[]"]
  have n: "str_int 16 = ''16''" "str_int 8 = ''8''" by (simp_all add: str_int_eval)
  from t have a: "coordinate_check Mercury 3 16 4 \<noteq> Inr ()"
    by (simp add: s)
  from t l have b: "\<exists>d. get_mercury_tile (\<lambda>u. Response 200 ''bytes'') 3 16 4 ''L'' ''1.0.0''
            ''default'' ''default028mm'' ''jpg'' []
          = (Inl (HTTPException 400 d), [])
        \<and> error_of d = Some ''X coordinate out of bounds''
        \<and> field_of ''tile_matrix'' d = Some (JStr (''16'' @ [CHR 0xD7] @ ''8''))"
    by (simp add: s n)
  show ?thesis using z s a b by blast
qed

subsection \<open>The declared constraints\<close>

lemma violations_ok:
  "violations checks = Inr () \<longleftrightarrow> list_all snd checks"
  by (induction checks) (auto simp: violations_def split: list.splits)

lemma violations_names:
  "violations checks = Inl e \<longleftrightarrow>
     (e = RequestValidationError (map fst (filter (\<lambda>(name, ok). \<not> ok) checks)) \<and>
      \<not> list_all snd checks)"
proof (cases "list_all snd checks")
  case True
  then show ?thesis using violations_ok [of checks] by simp
next
  case False
  then have "violations checks \<noteq> Inr ()" by (simp add: violations_ok)
  then show ?thesis using False
    by (auto simp: violations_def split: list.splits)
qed

lemma earth_query_ok:
  "earth_query date z y x format = Inr () \<longleftrightarrow>
     date_pattern date \<and> 0 \<le> z \<and> z \<le> 9 \<and> 0 \<le> y \<and> 0 \<le> x \<and>
     format \<in> {''jpg'', ''jpeg'', ''png'', ''png8''}"
  by (auto simp: earth_query_def violations_ok EARTH_MAX_ZOOM_def)

lemma moon_query_ok:
  "moon_query z y x format = Inr () \<longleftrightarrow>
     0 \<le> z \<and> z \<le> 10 \<and> 0 \<le> y \<and> 0 \<le> x \<and>
     format \<in> {''jpg'', ''jpeg'', ''png'', ''tif'', ''tiff''}"
  by (auto simp: moon_query_def violations_ok MOON_MAX_ZOOM_def)

lemma mars_query_ok:
  "mars_query z y x format = Inr () \<longleftrightarrow>
     0 \<le> z \<and> 0 \<le> y \<and> 0 \<le> x \<and>
     format \<in> {''jpg'', ''jpeg'', ''png'', ''tif'', ''tiff''}"
  by (auto simp: mars_query_def violations_ok MIN_ZOOM_def)

lemma mercury_query_ok:
  "mercury_query z x y = Inr () \<longleftrightarrow> 0 \<le> z \<and> 0 \<le> x \<and> 0 \<le> y"
  by (auto simp: mercury_query_def violations_ok)

lemma query_rejects:
  "q \<noteq> Inr () \<Longrightarrow> q = violations checks \<Longrightarrow>
     \<exists>names. q = Inl (RequestValidationError names)"
  by (cases "violations checks") (auto simp: violations_names)

lemma earth_route_rejects:
  assumes "earth_query date z y x format \<noteq> Inr ()"
  shows "\<exists>names. earth_route utcnow client_get layer date z y x tile_matrix_set format requested
           = (Inl (RequestValidationError names), requested)"
proof -
  obtain names where "earth_query date z y x format = Inl (RequestValidationError names)"
    using query_rejects [OF assms] unfolding earth_query_def by blast
  then show ?thesis by (simp add: earth_route_def)
qed

lemma moon_route_rejects:
  assumes "moon_query z y x format \<noteq> Inr ()"
  shows "\<exists>names. moon_route client_get z y x layer version style tile_matrix_set format requested
           = (Inl (RequestValidationError names), requested)"
proof -
  obtain names where "moon_query z y x format = Inl (RequestValidationError names)"
    using query_rejects [OF assms] unfolding moon_query_def by blast
  then show ?thesis by (simp add: moon_route_def)
qed

lemma mars_route_rejects:
  assumes "mars_query z y x format \<noteq> Inr ()"
  shows "\<exists>names. mars_route MAX_ZOOM client_get z y x layer version style tile_matrix_set format
             requested
           = (Inl (RequestValidationError names), requested)"
proof -
  obtain names where "mars_query z y x format = Inl (RequestValidationError names)"
    using query_rejects [OF assms] unfolding mars_query_def by blast
  then show ?thesis by (simp add: mars_route_def)
qed

lemma mercury_route_rejects:
  assumes "mercury_query z x y \<noteq> Inr ()"
  shows "\<exists>names. mercury_route client_get z x y layer version style TileMatrixSet format requested
           = (Inl (RequestValidationError names), requested)"
proof -
  obtain names where "mercury_query z x y = Inl (RequestValidationError names)"
    using query_rejects [OF assms] unfolding mercury_query_def by blast
  then show ?thesis by (simp add: mercury_route_def)
qed

lemma earth_route_accepts:
  "earth_query date z y x format = Inr () \<Longrightarrow>
     earth_route utcnow client_get layer date z y x tile_matrix_set format requested =
     get_earth_tile utcnow client_get layer date z y x tile_matrix_set format requested"
  by (simp add: earth_route_def)

lemma moon_route_accepts:
  "moon_query z y x format = Inr () \<Longrightarrow>
     moon_route client_get z y x layer version style tile_matrix_set format requested =
     get_moon_tile client_get z y x layer version style tile_matrix_set format requested"
  by (simp add: moon_route_def)

lemma mars_route_accepts:
  "mars_query z y x format = Inr () \<Longrightarrow>
     mars_route MAX_ZOOM client_get z y x layer version style tile_matrix_set format requested =
     get_mars_tile MAX_ZOOM client_get z y x layer version style tile_matrix_set format requested"
  by (simp add: mars_route_def)

lemma mercury_route_accepts:
  "mercury_query z x y = Inr () \<Longrightarrow>
     mercury_route client_get z x y layer version style TileMatrixSet format requested =
     get_mercury_tile client_get z x y layer version style TileMatrixSet format requested"
  by (simp add: mercury_route_def)

lemmas spec_valid_defs = spec_coordinates_valid_def spec_zoom_in_range_def spec_minZoom_def
  spec_maxZoom_def

lemma handler_checks_iff:
  "b = Mars \<or> b = Mercury \<Longrightarrow>
     (zoom_check b MAX_ZOOM z = Inr () \<and> coordinate_check b z x y = Inr ()) =
     spec_coordinates_valid b MAX_ZOOM z y x"
  by (auto simp: zoom_check_def coordinate_check_ok spec_valid_defs mars_zoom_ok mercury_zoom_ok)

lemma declared_checks_iff:
  "b = Earth \<or> b = Moon \<Longrightarrow>
     zoom_check b MAX_ZOOM z = Inr () \<and>
     ((declared_zoom b z \<and> coordinate_check b z x y = Inr ()) =
      spec_coordinates_valid b MAX_ZOOM z y x)"
  by (auto simp: zoom_check_def coordinate_check_ok spec_valid_defs declared_zoom_def
      EARTH_MAX_ZOOM_def MOON_MAX_ZOOM_def)

subsection \<open>Coordinate validation\<close>

lemmas strptime_eval = strptime_def is_digit_def dv_def digit_val_def valid_date_def
  days_in_month_def is_leap_def

lemmas dt_eval = dt_gt_def dt_fields_def

text \<open>
  C1, as the code has it. For Mars and Mercury and all integers \<open>z\<close>, \<open>y\<close>, \<open>x\<close>, the
  zoom check of the handler followed by its coordinate check succeeds if and only if
  \<open>0 \<le> y < maxRows(z)\<close>, \<open>0 \<le> x < maxCols(z)\<close> and \<open>0 \<le> z \<le> maxZoom\<close>. The Earth and
  Moon handlers have no zoom check; their bounds \<open>0 \<le> z \<le> 9\<close> and \<open>0 \<le> z \<le> 10\<close> are
  constraints declared on the query parameter, and the declared bound together with the
  coordinate check succeeds if and only if the same three conditions hold. With
  \<open>0 \<le> z\<close>, the coordinate check of every handler fails with a 400 whose kind is a
  coordinates-out-of-bounds one whenever the row or column bound is violated. A request
  with a negative row or column does not reach that check: each route rejects it by the
  declared constraint \<open>ge=0\<close>, with the framework's validation error and no 400.
\<close>

theorem coordinate_validation:
  "((b = Mars \<or> b = Mercury) \<longrightarrow>
      (zoom_check b MAX_ZOOM z = Inr () \<and> coordinate_check b z x y = Inr ()) =
      spec_coordinates_valid b MAX_ZOOM z y x)
   \<and> ((b = Earth \<or> b = Moon) \<longrightarrow>
      zoom_check b MAX_ZOOM z = Inr () \<and>
      ((declared_zoom b z \<and> coordinate_check b z x y = Inr ()) =
       spec_coordinates_valid b MAX_ZOOM z y x))
   \<and> (0 \<le> z \<and> \<not> spec_in_matrix b z y x \<longrightarrow>
      (\<exists>d. coordinate_check b z x y = Inl (HTTPException 400 d) \<and>
           error_of d \<in> {Some ''Tile coordinates out of bounds'',
                          Some ''coordinates_out_of_bounds'',
                          Some ''X coordinate out of bounds'',
                          Some ''Y coordinate out of bounds''}))
   \<and> (x < 0 \<or> y < 0 \<longrightarrow>
      (\<exists>names. earth_route utcnow client_get layer date z y x tile_matrix_set format requested
                 = (Inl (RequestValidationError names), requested)) \<and>
      (\<exists>names. moon_route client_get z y x layer version style tile_matrix_set format requested
                 = (Inl (RequestValidationError names), requested)) \<and>
      (\<exists>names. mars_route MAX_ZOOM client_get z y x layer version style tile_matrix_set format
                   requested
                 = (Inl (RequestValidationError names), requested)) \<and>
      (\<exists>names. mercury_route client_get z x y layer version style tile_matrix_set format
                   requested
                 = (Inl (RequestValidationError names), requested)))"
proof (intro conjI impI)
  assume "b = Mars \<or> b = Mercury"
  then show "(zoom_check b MAX_ZOOM z = Inr () \<and> coordinate_check b z x y = Inr ()) =
      spec_coordinates_valid b MAX_ZOOM z y x"
    by (rule handler_checks_iff)
next
  assume "b = Earth \<or> b = Moon"
  then show "zoom_check b MAX_ZOOM z = Inr ()"
    using declared_checks_iff by blast
next
  assume "b = Earth \<or> b = Moon"
  then show "(declared_zoom b z \<and> coordinate_check b z x y = Inr ()) =
       spec_coordinates_valid b MAX_ZOOM z y x"
    using declared_checks_iff by blast
next
  assume "0 \<le> z \<and> \<not> spec_in_matrix b z y x"
  then show "\<exists>d. coordinate_check b z x y = Inl (HTTPException 400 d) \<and>
           error_of d \<in> {Some ''Tile coordinates out of bounds'',
                          Some ''coordinates_out_of_bounds'',
                          Some ''X coordinate out of bounds'',
                          Some ''Y coordinate out of bounds''}"
    using coordinate_check_error by blast
next
  assume n: "x < 0 \<or> y < 0"
  then have "earth_query date z y x format \<noteq> Inr ()" by (auto simp: earth_query_ok)
  then show "\<exists>names. earth_route utcnow client_get layer date z y x tile_matrix_set format
                 requested = (Inl (RequestValidationError names), requested)"
    by (rule earth_route_rejects)
next
  assume n: "x < 0 \<or> y < 0"
  then have "moon_query z y x format \<noteq> Inr ()" by (auto simp: moon_query_ok)
  then show "\<exists>names. moon_route client_get z y x layer version style tile_matrix_set format
                 requested = (Inl (RequestValidationError names), requested)"
    by (rule moon_route_rejects)
next
  assume n: "x < 0 \<or> y < 0"
  then have "mars_query z y x format \<noteq> Inr ()" by (auto simp: mars_query_ok)
  then show "\<exists>names. mars_route MAX_ZOOM client_get z y x layer version style tile_matrix_set
                 format requested = (Inl (RequestValidationError names), requested)"
    by (rule mars_route_rejects)
next
  assume n: "x < 0 \<or> y < 0"
  then have "mercury_query z x y \<noteq> Inr ()" by (auto simp: mercury_query_ok)
  then show "\<exists>names. mercury_route client_get z x y layer version style tile_matrix_set format
                 requested = (Inl (RequestValidationError names), requested)"
    by (rule mercury_route_rejects)
qed

theorem coordinate_validation_witness:
  "zoom_check Mars 7 3 = Inr () \<and> coordinate_check Mars 3 5 2 = Inr () \<and>
   spec_coordinates_valid Mars 7 3 2 5 \<and>
   declared_zoom Earth 6 \<and> spec_coordinates_valid Earth 7 6 18 23 \<and>
   coordinate_check Earth 6 23 18 = Inr () \<and>
   (0::int) \<le> 6 \<and> \<not> spec_in_matrix Earth 6 0 64 \<and>
   (\<exists>d. coordinate_check Earth 6 64 0 = Inl (HTTPException 400 d) \<and>
        error_of d = Some ''Tile coordinates out of bounds'') \<and>
   (\<exists>names. mercury_route sample_upstream 3 (- 1) 0 ''L'' ''1.0.0'' ''default''
      ''default028mm'' ''jpg'' [] = (Inl (RequestValidationError names), []))"
proof -
  note t1 = coordinate_validation [of Mars 7 3 5 2]
  note t2 = coordinate_validation [of Earth 7 6 23 18]
  note t3 = coordinate_validation [of Earth 7 6 64 0]
  note t4 = coordinate_validation [where x = "- 1" and y = 0 and z = 3
      and client_get = sample_upstream and layer = "''L''" and version = "''1.0.0''"
      and style = "''default''" and tile_matrix_set = "''default028mm''" and format = "''jpg''"
      and requested = "[]"]
  have v1: "spec_coordinates_valid Mars 7 3 2 5"
    by (simp add: spec_valid_defs spec_shape_defs)
  have v2: "spec_coordinates_valid Earth 7 6 18 23"
    by (simp add: spec_valid_defs spec_shape_defs)
  have d2: "declared_zoom Earth 6"
    by (simp add: declared_zoom_def EARTH_MAX_ZOOM_def)
  have n3: "\<not> spec_in_matrix Earth 6 0 64"
    by (simp add: spec_shape_defs)
  from t1 v1 have a: "zoom_check Mars 7 3 = Inr () \<and> coordinate_check Mars 3 5 2 = Inr ()"
    by simp
  from t2 v2 have b: "coordinate_check Earth 6 23 18 = Inr ()"
    by simp
  from t3 n3 have c: "\<exists>d. coordinate_check Earth 6 64 0 = Inl (HTTPException 400 d) \<and>
        error_of d = Some ''Tile coordinates out of bounds''"
    by (auto simp: coordinate_check_def earth_validate_coordinates_def)
  from t4 have d: "\<exists>names. mercury_route sample_upstream 3 (- 1) 0 ''L'' ''1.0.0''
      ''default'' ''default028mm'' ''jpg'' [] = (Inl (RequestValidationError names), [])"
    by simp
  show ?thesis using a b c d v1 v2 d2 n3 by simp
qed

text \<open>
  C1 as stated fails on Earth. The handler's coordinate validation accepts zoom 10 with
  \<open>x = y = 0\<close> and goes on to request the tile, although 10 is above Earth's maximum zoom
  of 9; and the request \<open>z = 3, y = 0, x = -1\<close> is rejected by the declared constraint on
  \<open>x\<close>, not with the 400 for coordinates out of bounds.
\<close>

theorem coordinate_validation_counterexample:
  "coordinate_check Earth 10 0 0 = Inr () \<and>
   snd (get_earth_tile sample_utcnow sample_upstream EARTH_DEFAULT_LAYER ''2025-10-03'' 10 0 0
          EARTH_DEFAULT_TMS ''jpg'' []) =
     [''https://gibs.earthdata.nasa.gov/wmts/epsg3857/best/VIIRS_SNPP_CorrectedReflectance_TrueColor/default/2025-10-03/GoogleMapsCompatible_Level9/10/0/0.jpg''] \<and>
   \<not> spec_coordinates_valid Earth 7 10 0 0 \<and>
   earth_route sample_utcnow sample_upstream EARTH_DEFAULT_LAYER ''2025-10-03'' 3 0 (- 1)
     EARTH_DEFAULT_TMS ''jpg'' [] = (Inl (RequestValidationError [''x'']), [])"
proof -
  have a: "coordinate_check Earth 10 0 0 = Inr ()"
    by (simp add: coordinate_check_def earth_validate_coordinates_def max_tiles_def)
  have d: "earth_validate_date sample_utcnow ''2025-10-03'' = Inr ()"
    by (simp add: earth_validate_date_def strptime_eval dt_eval sample_utcnow_def)
  have c: "earth_validate_coordinates 10 0 0 = Inr ()"
    by (simp add: earth_validate_coordinates_def max_tiles_def)
  have b: "snd (get_earth_tile sample_utcnow sample_upstream EARTH_DEFAULT_LAYER ''2025-10-03''
          10 0 0 EARTH_DEFAULT_TMS ''jpg'' []) =
     [''https://gibs.earthdata.nasa.gov/wmts/epsg3857/best/VIIRS_SNPP_CorrectedReflectance_TrueColor/default/2025-10-03/GoogleMapsCompatible_Level9/10/0/0.jpg'']"
    by (simp add: get_earth_tile_def d c earth_tile_url_def GIBS_BASE_URL_def Let_def
        EARTH_DEFAULT_LAYER_def EARTH_DEFAULT_TMS_def str_int_eval)
  have n: "\<not> spec_coordinates_valid Earth 7 10 0 0"
    by (simp add: spec_valid_defs)
  have r: "earth_route sample_utcnow sample_upstream EARTH_DEFAULT_LAYER ''2025-10-03'' 3 0 (- 1)
     EARTH_DEFAULT_TMS ''jpg'' [] = (Inl (RequestValidationError [''x'']), [])"
    by (simp add: earth_route_def earth_query_def violations_def date_pattern_def is_digit_def
        EARTH_MAX_ZOOM_def)
  show ?thesis using a b n r by simp
qed

subsection \<open>Zoom bounds\<close>

lemma mars_zoom_rejected:
  assumes "z < 0 \<or> MAX_ZOOM < z"
  shows "\<exists>d. get_mars_tile MAX_ZOOM client_get z y x layer version style tile_matrix_set format
                requested
              = (Inl (HTTPException 400 d), requested)
            \<and> error_of d = Some ''invalid_zoom''"
  using assms by (auto simp: get_mars_tile_def validate_zoom_level_def MIN_ZOOM_def)

lemma mercury_zoom_rejected:
  assumes "lower format = ''jpg''" "z < 0 \<or> 7 < z"
  shows "\<exists>d. get_mercury_tile client_get z x y layer version style TileMatrixSet format requested
              = (Inl (HTTPException 400 d), requested)
            \<and> error_of d = Some ''Zoom level out of range''"
  using assms
  by (auto simp: get_mercury_tile_def mercury_validate_format_def mercury_validate_zoom_def
      mercury_MAX_ZOOM_def)

text \<open>
  C3, as the code has it. The Mars handler answers a zoom below 0 or above \<open>MAX_ZOOM\<close>
  (7 unless the environment variable \<open>MARS_MAX_ZOOM\<close> overrides it) with the 400
  \<open>invalid_zoom\<close>, and the Mercury handler answers a zoom below 0 or above 7 with the 400
  "Zoom level out of range" once the format has been accepted. The Earth and Moon
  handlers have no zoom check and no zoom error: their bounds 0 to 9 and 0 to 10 are
  declared on the query parameter, so a zoom outside them is rejected by the framework's
  request validation, as is a negative zoom on the Mars and Mercury routes.
\<close>

theorem zoom_out_of_range:
  "(z < 0 \<or> MAX_ZOOM < z \<longrightarrow>
      (\<exists>d. get_mars_tile MAX_ZOOM client_get z y x layer version style tile_matrix_set format
               requested
             = (Inl (HTTPException 400 d), requested)
           \<and> error_of d = Some ''invalid_zoom''))
   \<and> mars_MAX_ZOOM None = 7 \<and> mars_MAX_ZOOM (Some v) = v \<and> MIN_ZOOM = 0
   \<and> (lower format = ''jpg'' \<and> (z < 0 \<or> 7 < z) \<longrightarrow>
      (\<exists>d. get_mercury_tile client_get z x y layer version style tile_matrix_set format requested
             = (Inl (HTTPException 400 d), requested)
           \<and> error_of d = Some ''Zoom level out of range''))
   \<and> zoom_check Earth MAX_ZOOM z = Inr () \<and> zoom_check Moon MAX_ZOOM z = Inr ()
   \<and> (z < 0 \<or> 9 < z \<longrightarrow>
      (\<exists>names. earth_route utcnow client_get layer date z y x tile_matrix_set format requested
                 = (Inl (RequestValidationError names), requested)))
   \<and> (z < 0 \<or> 10 < z \<longrightarrow>
      (\<exists>names. moon_route client_get z y x layer version style tile_matrix_set format requested
                 = (Inl (RequestValidationError names), requested)))
   \<and> (z < 0 \<longrightarrow>
      (\<exists>names. mars_route MAX_ZOOM client_get z y x layer version style tile_matrix_set format
                   requested
                 = (Inl (RequestValidationError names), requested)) \<and>
      (\<exists>names. mercury_route client_get z x y layer version style tile_matrix_set format
                   requested
                 = (Inl (RequestValidationError names), requested)))"
proof (intro conjI impI)
  assume "z < 0 \<or> MAX_ZOOM < z"
  then show "\<exists>d. get_mars_tile MAX_ZOOM client_get z y x layer version style tile_matrix_set
                 format requested = (Inl (HTTPException 400 d), requested)
               \<and> error_of d = Some ''invalid_zoom''"
    by (rule mars_zoom_rejected)
next
  show "mars_MAX_ZOOM None = 7" by (simp add: mars_MAX_ZOOM_def)
next
  show "mars_MAX_ZOOM (Some v) = v" by (simp add: mars_MAX_ZOOM_def)
next
  show "MIN_ZOOM = 0" by (simp add: MIN_ZOOM_def)
next
  assume "lower format = ''jpg'' \<and> (z < 0 \<or> 7 < z)"
  then show "\<exists>d. get_mercury_tile client_get z x y layer version style tile_matrix_set format
                 requested = (Inl (HTTPException 400 d), requested)
               \<and> error_of d = Some ''Zoom level out of range''"
    using mercury_zoom_rejected by blast
next
  show "zoom_check Earth MAX_ZOOM z = Inr ()" by (simp add: zoom_check_def)
next
  show "zoom_check Moon MAX_ZOOM z = Inr ()" by (simp add: zoom_check_def)
next
  assume "z < 0 \<or> 9 < z"
  then have "earth_query date z y x format \<noteq> Inr ()" by (auto simp: earth_query_ok)
  then show "\<exists>names. earth_route utcnow client_get layer date z y x tile_matrix_set format
                 requested = (Inl (RequestValidationError names), requested)"
    by (rule earth_route_rejects)
next
  assume "z < 0 \<or> 10 < z"
  then have "moon_query z y x format \<noteq> Inr ()" by (auto simp: moon_query_ok)
  then show "\<exists>names. moon_route client_get z y x layer version style tile_matrix_set format
                 requested = (Inl (RequestValidationError names), requested)"
    by (rule moon_route_rejects)
next
  assume "z < 0"
  then have "mars_query z y x format \<noteq> Inr ()" by (auto simp: mars_query_ok)
  then show "\<exists>names. mars_route MAX_ZOOM client_get z y x layer version style tile_matrix_set
                 format requested = (Inl (RequestValidationError names), requested)"
    by (rule mars_route_rejects)
next
  assume "z < 0"
  then have "mercury_query z x y \<noteq> Inr ()" by (auto simp: mercury_query_ok)
  then show "\<exists>names. mercury_route client_get z x y layer version style tile_matrix_set format
                 requested = (Inl (RequestValidationError names), requested)"
    by (rule mercury_route_rejects)
qed

theorem zoom_out_of_range_witness:
  "(\<exists>d. get_mars_tile 7 sample_upstream 8 0 0 ''viking'' ''1.0.0'' ''default'' ''default028mm''
           ''jpg'' []
         = (Inl (HTTPException 400 d), []) \<and> error_of d = Some ''invalid_zoom'') \<and>
   lower ''jpg'' = ''jpg'' \<and>
   (\<exists>d. get_mercury_tile sample_upstream 8 0 0 ''viking'' ''1.0.0'' ''default'' ''default028mm''
           ''jpg'' []
         = (Inl (HTTPException 400 d), []) \<and> error_of d = Some ''Zoom level out of range'') \<and>
   (\<exists>names. earth_route sample_utcnow sample_upstream ''viking'' ''2025-10-03'' 10 0 0
               ''default028mm'' ''jpg'' []
         = (Inl (RequestValidationError names), [])) \<and>
   (\<exists>names. moon_route sample_upstream 11 0 0 ''viking'' ''1.0.0'' ''default'' ''default028mm''
               ''jpg'' []
         = (Inl (RequestValidationError names), [])) \<and>
   (\<exists>names. mars_route 7 sample_upstream (- 1) 0 0 ''viking'' ''1.0.0'' ''default''
               ''default028mm'' ''jpg'' []
         = (Inl (RequestValidationError names), []))"
proof -
  have l: "lower ''jpg'' = ''jpg''" by (simp add: lower_eval)
  note a = zoom_out_of_range [where MAX_ZOOM = 7 and z = 8 and y = 0 and x = 0
      and client_get = sample_upstream and layer = "''viking''" and version = "''1.0.0''"
      and style = "''default''" and tile_matrix_set = "''default028mm''" and format = "''jpg''"
      and requested = "[]"]
  note b = zoom_out_of_range [where z = 10 and y = 0 and x = 0 and utcnow = sample_utcnow
      and client_get = sample_upstream and layer = "''viking''" and date = "''2025-10-03''"
      and tile_matrix_set = "''default028mm''" and format = "''jpg''" and requested = "[]"]
  note c = zoom_out_of_range [where z = 11 and y = 0 and x = 0
      and client_get = sample_upstream and layer = "''viking''" and version = "''1.0.0''"
      and style = "''default''" and tile_matrix_set = "''default028mm''" and format = "''jpg''"
      and requested = "[]"]
  note d = zoom_out_of_range [where MAX_ZOOM = 7 and z = "- 1" and y = 0 and x = 0
      and client_get = sample_upstream and layer = "''viking''" and version = "''1.0.0''"
      and style = "''default''" and tile_matrix_set = "''default028mm''" and format = "''jpg''"
      and requested = "[]"]
  from a have a1: "\<exists>d. get_mars_tile 7 sample_upstream 8 0 0 ''viking'' ''1.0.0'' ''default''
      ''default028mm'' ''jpg'' [] = (Inl (HTTPException 400 d), [])
      \<and> error_of d = Some ''invalid_zoom''"
    by simp
  from a l have a2: "\<exists>d. get_mercury_tile sample_upstream 8 0 0 ''viking'' ''1.0.0'' ''default''
      ''default028mm'' ''jpg'' [] = (Inl (HTTPException 400 d), [])
      \<and> error_of d = Some ''Zoom level out of range''"
    by simp
  from b have b1: "\<exists>names. earth_route sample_utcnow sample_upstream ''viking'' ''2025-10-03''
      10 0 0 ''default028mm'' ''jpg'' [] = (Inl (RequestValidationError names), [])"
    by simp
  from c have c1: "\<exists>names. moon_route sample_upstream 11 0 0 ''viking'' ''1.0.0'' ''default''
      ''default028mm'' ''jpg'' [] = (Inl (RequestValidationError names), [])"
    by simp
  from d have d1: "\<exists>names. mars_route 7 sample_upstream (- 1) 0 0 ''viking'' ''1.0.0''
      ''default'' ''default028mm'' ''jpg'' [] = (Inl (RequestValidationError names), [])"
    by simp
  show ?thesis using l a1 a2 b1 c1 d1 by blast
qed

text \<open>
  C3 as stated fails on Earth at zoom 10, one above the maximum: the route rejects the
  request by the declared constraint on \<open>z\<close> (a validation error, status 422), and the
  handler body, called with this zoom, raises nothing and returns the tile.
\<close>

theorem zoom_out_of_range_counterexample:
  "earth_route sample_utcnow sample_upstream EARTH_DEFAULT_LAYER ''2025-10-03'' 10 0 0
     EARTH_DEFAULT_TMS ''jpg'' [] = (Inl (RequestValidationError [''z'']), []) \<and>
   status_of (RequestValidationError [''z'']) = 422 \<and>
   fst (get_earth_tile sample_utcnow sample_upstream EARTH_DEFAULT_LAYER ''2025-10-03'' 10 0 0
          EARTH_DEFAULT_TMS ''jpg'' []) =
     Inr \<lparr>content = ''bytes'', media_type = ''image/jpeg'',
          headers = [(''Cache-Control'', ''public, max-age=86400''),
                     (''X-Tile-Source'', ''NASA-GIBS''),
                     (''X-Tile-Layer'', ''VIIRS_SNPP_CorrectedReflectance_TrueColor''),
                     (''X-Tile-Date'', ''2025-10-03''),
                     (''X-Zoom-Level'', ''10'')]\<rparr>"
proof -
  have r: "earth_route sample_utcnow sample_upstream EARTH_DEFAULT_LAYER ''2025-10-03'' 10 0 0
     EARTH_DEFAULT_TMS ''jpg'' [] = (Inl (RequestValidationError [''z'']), [])"
    by (simp add: earth_route_def earth_query_def violations_def date_pattern_def is_digit_def
        EARTH_MAX_ZOOM_def)
  have d: "earth_validate_date sample_utcnow ''2025-10-03'' = Inr ()"
    by (simp add: earth_validate_date_def strptime_eval dt_eval sample_utcnow_def)
  have c: "earth_validate_coordinates 10 0 0 = Inr ()"
    by (simp add: earth_validate_coordinates_def max_tiles_def)
  have g: "fst (get_earth_tile sample_utcnow sample_upstream EARTH_DEFAULT_LAYER ''2025-10-03''
          10 0 0 EARTH_DEFAULT_TMS ''jpg'' []) =
     Inr \<lparr>content = ''bytes'', media_type = ''image/jpeg'',
          headers = [(''Cache-Control'', ''public, max-age=86400''),
                     (''X-Tile-Source'', ''NASA-GIBS''),
                     (''X-Tile-Layer'', ''VIIRS_SNPP_CorrectedReflectance_TrueColor''),
                     (''X-Tile-Date'', ''2025-10-03''),
                     (''X-Zoom-Level'', ''10'')]\<rparr>"
    by (simp add: get_earth_tile_def d c Let_def earth_classify_def sample_upstream_def
        is_success_def content_type_of_def CONTENT_TYPE_MAP_def EARTH_CACHE_MAX_AGE_def
        EARTH_DEFAULT_LAYER_def str_int_eval)
  show ?thesis using r g by simp
qed

subsection \<open>Mars layer resolution\<close>

lemma lower_char_space: "isspace (lower_char c) = isspace c"
  by (auto simp: isspace_def whitespace_def lower_char_def upper_letters_def lower_letters_def
      split: option.splits if_splits)

lemma lower_char_idem: "lower_char (lower_char c) = lower_char c"
  by (auto simp: lower_char_def upper_letters_def lower_letters_def
      split: option.splits if_splits)

lemma lower_idem: "lower (lower s) = lower s"
  by (simp add: lower_def lower_char_idem)

lemma dropWhile_lower: "dropWhile isspace (lower s) = lower (dropWhile isspace s)"
  by (induction s) (auto simp: lower_def lower_char_space)

lemma lower_rev: "lower (rev s) = rev (lower s)"
  by (simp add: lower_def rev_map)

lemma strip_lower: "strip (lower s) = lower (strip s)"
  by (simp add: strip_def dropWhile_lower lower_rev [symmetric])

lemma normalize_layer_Inr:
  "normalize_layer MAX_ZOOM layer = Inr c \<longleftrightarrow>
     map_of SUPPORTED_LAYERS (lower (strip layer)) = Some c"
  by (simp add: normalize_layer_def Let_def split: option.splits)

lemma normalize_layer_Inl:
  "map_of SUPPORTED_LAYERS (lower (strip layer)) = None \<Longrightarrow>
     normalize_layer MAX_ZOOM layer =
       Inl (HTTPException 422 (JObj
         [(''error'', JStr ''unsupported_layer''),
          (''message'', JStr ''Only Viking Color Mosaic and MOLA Elevation are supported.''),
          (''provided'', JStr layer),
          (''supported'', JList [viking_metadata MAX_ZOOM, mola_metadata MAX_ZOOM])]))"
  by (simp add: normalize_layer_def Let_def)

lemma supported_values:
  "map_of SUPPORTED_LAYERS k = Some c \<Longrightarrow> c = VIKING \<or> c = MOLA"
  by (auto simp: SUPPORTED_LAYERS_def split: if_splits)

lemma canonical_resolves:
  "normalize_layer MAX_ZOOM VIKING = Inr VIKING" "normalize_layer MAX_ZOOM MOLA = Inr MOLA"
  by (simp_all add: normalize_layer_def Let_def SUPPORTED_LAYERS_def VIKING_def MOLA_def
      strip_def isspace_def whitespace_def lower_eval)

lemma normalize_layer_idem:
  "normalize_layer MAX_ZOOM layer = Inr c \<Longrightarrow> normalize_layer MAX_ZOOM c = Inr c"
  using supported_values canonical_resolves by (auto simp: normalize_layer_Inr)

lemma normalized_case:
  "lower layer = lower layer' \<Longrightarrow> lower (strip layer) = lower (strip layer')"
  by (simp add: strip_lower [symmetric])

lemma alias_table:
  "k \<in> viking_aliases \<Longrightarrow> map_of SUPPORTED_LAYERS k = Some VIKING"
  "k \<in> mola_aliases \<Longrightarrow> map_of SUPPORTED_LAYERS k = Some MOLA"
  "k \<notin> viking_aliases \<Longrightarrow> k \<notin> mola_aliases \<Longrightarrow> map_of SUPPORTED_LAYERS k = None"
  by (auto simp: SUPPORTED_LAYERS_def viking_aliases_def mola_aliases_def)

text \<open>
  C4. Mars layer resolution trims and lower-cases its input and looks the result up in the
  alias table: every alias of Viking resolves to
  \<open>Mars_Viking_MDIM21_ClrMosaic_global_232m\<close> and every alias of MOLA to
  \<open>Mars_MGS_MOLA_MEGR_global_463m\<close>. It is idempotent (a resolved layer resolves to
  itself) and case-insensitive (two inputs that differ in case only resolve alike, or
  fail alike). An input that is not in the table after trimming and lower-casing fails
  with the 422 \<open>unsupported_layer\<close>, which echoes the input and lists as supported exactly
  the Viking and the MOLA entry.
\<close>

theorem mars_layer_resolution:
  "(lower (strip layer) \<in> viking_aliases \<longrightarrow>
      normalize_layer MAX_ZOOM layer = Inr ''Mars_Viking_MDIM21_ClrMosaic_global_232m'')
   \<and> (lower (strip layer) \<in> mola_aliases \<longrightarrow>
      normalize_layer MAX_ZOOM layer = Inr ''Mars_MGS_MOLA_MEGR_global_463m'')
   \<and> (normalize_layer MAX_ZOOM layer = Inr c \<longrightarrow> normalize_layer MAX_ZOOM c = Inr c)
   \<and> (lower layer = lower layer' \<longrightarrow>
      (normalize_layer MAX_ZOOM layer = Inr c) = (normalize_layer MAX_ZOOM layer' = Inr c) \<and>
      isl (normalize_layer MAX_ZOOM layer) = isl (normalize_layer MAX_ZOOM layer'))
   \<and> (lower (strip layer) \<notin> fst ` set SUPPORTED_LAYERS \<longrightarrow>
      (\<exists>d. normalize_layer MAX_ZOOM layer = Inl (HTTPException 422 d) \<and>
           error_of d = Some ''unsupported_layer'' \<and>
           field_of ''provided'' d = Some (JStr layer) \<and>
           field_of ''supported'' d =
             Some (JList [viking_metadata MAX_ZOOM, mola_metadata MAX_ZOOM]) \<and>
           field_of ''id'' (viking_metadata MAX_ZOOM) =
             Some (JStr ''Mars_Viking_MDIM21_ClrMosaic_global_232m'') \<and>
           field_of ''id'' (mola_metadata MAX_ZOOM) =
             Some (JStr ''Mars_MGS_MOLA_MEGR_global_463m'')))"
proof (intro conjI impI)
  assume "lower (strip layer) \<in> viking_aliases"
  then show "normalize_layer MAX_ZOOM layer = Inr ''Mars_Viking_MDIM21_ClrMosaic_global_232m''"
    using alias_table(1) by (simp add: normalize_layer_Inr VIKING_def)
next
  assume "lower (strip layer) \<in> mola_aliases"
  then show "normalize_layer MAX_ZOOM layer = Inr ''Mars_MGS_MOLA_MEGR_global_463m''"
    using alias_table(2) by (simp add: normalize_layer_Inr MOLA_def)
next
  assume "normalize_layer MAX_ZOOM layer = Inr c"
  then show "normalize_layer MAX_ZOOM c = Inr c" by (rule normalize_layer_idem)
next
  assume "lower layer = lower layer'"
  then have e: "lower (strip layer) = lower (strip layer')" by (rule normalized_case)
  show "(normalize_layer MAX_ZOOM layer = Inr c) = (normalize_layer MAX_ZOOM layer' = Inr c)"
    by (simp add: normalize_layer_Inr e)
next
  assume "lower layer = lower layer'"
  then have e: "lower (strip layer) = lower (strip layer')" by (rule normalized_case)
  show "isl (normalize_layer MAX_ZOOM layer) = isl (normalize_layer MAX_ZOOM layer')"
    by (simp add: normalize_layer_def Let_def e split: option.splits)
next
  assume "lower (strip layer) \<notin> fst ` set SUPPORTED_LAYERS"
  then have "map_of SUPPORTED_LAYERS (lower (strip layer)) = None"
    by (simp add: map_of_eq_None_iff)
  then show "\<exists>d. normalize_layer MAX_ZOOM layer = Inl (HTTPException 422 d) \<and>
           error_of d = Some ''unsupported_layer'' \<and>
           field_of ''provided'' d = Some (JStr layer) \<and>
           field_of ''supported'' d =
             Some (JList [viking_metadata MAX_ZOOM, mola_metadata MAX_ZOOM]) \<and>
           field_of ''id'' (viking_metadata MAX_ZOOM) =
             Some (JStr ''Mars_Viking_MDIM21_ClrMosaic_global_232m'') \<and>
           field_of ''id'' (mola_metadata MAX_ZOOM) =
             Some (JStr ''Mars_MGS_MOLA_MEGR_global_463m'')"
    by (simp add: normalize_layer_Inl viking_metadata_def mola_metadata_def VIKING_def MOLA_def)
qed

lemmas strip_eval = strip_def isspace_def whitespace_def

theorem mars_layer_resolution_witness:
  "lower (strip '' VIKING '') \<in> viking_aliases \<and>
   normalize_layer 7 '' VIKING '' = Inr ''Mars_Viking_MDIM21_ClrMosaic_global_232m'' \<and>
   lower ''VIKING'' = lower ''viking'' \<and>
   normalize_layer 7 ''VIKING'' = Inr ''Mars_Viking_MDIM21_ClrMosaic_global_232m'' \<and>
   normalize_layer 7 ''viking'' = Inr ''Mars_Viking_MDIM21_ClrMosaic_global_232m'' \<and>
   normalize_layer 7 ''Mars_Viking_MDIM21_ClrMosaic_global_232m'' =
     Inr ''Mars_Viking_MDIM21_ClrMosaic_global_232m'' \<and>
   lower (strip ''MOLA'') \<in> mola_aliases \<and>
   normalize_layer 7 ''MOLA'' = Inr ''Mars_MGS_MOLA_MEGR_global_463m'' \<and>
   lower (strip ''CTX'') \<notin> fst ` set SUPPORTED_LAYERS \<and>
   (\<exists>d. normalize_layer 7 ''CTX'' = Inl (HTTPException 422 d) \<and>
        error_of d = Some ''unsupported_layer'' \<and>
        field_of ''supported'' d = Some (JList [viking_metadata 7, mola_metadata 7]))"
proof -
  have a: "lower (strip '' VIKING '') \<in> viking_aliases"
    by (simp add: strip_eval lower_eval viking_aliases_def)
  have b: "lower (strip ''viking'') \<in> viking_aliases"
    by (simp add: strip_eval lower_eval viking_aliases_def)
  have c: "lower ''VIKING'' = lower ''viking''"
    by (simp add: lower_eval)
  have m: "lower (strip ''MOLA'') \<in> mola_aliases"
    by (simp add: strip_eval lower_eval mola_aliases_def)
  have x: "lower (strip ''CTX'') \<notin> fst ` set SUPPORTED_LAYERS"
    by (simp add: strip_eval lower_eval SUPPORTED_LAYERS_def)
  note t1 = mars_layer_resolution [of "'' VIKING ''" 7]
  note t2 = mars_layer_resolution [of "''viking''" 7
      "''Mars_Viking_MDIM21_ClrMosaic_global_232m''" "''VIKING''"]
  note t3 = mars_layer_resolution [of "''MOLA''" 7]
  note t4 = mars_layer_resolution [of "''CTX''" 7]
  from t1 a have r1: "normalize_layer 7 '' VIKING '' =
      Inr ''Mars_Viking_MDIM21_ClrMosaic_global_232m''" by blast
  from t2 b have r2: "normalize_layer 7 ''viking'' =
      Inr ''Mars_Viking_MDIM21_ClrMosaic_global_232m''" by blast
  from t2 r2 have r3: "normalize_layer 7 ''Mars_Viking_MDIM21_ClrMosaic_global_232m'' =
      Inr ''Mars_Viking_MDIM21_ClrMosaic_global_232m''" by blast
  from t2 r2 c have r4: "normalize_layer 7 ''VIKING'' =
      Inr ''Mars_Viking_MDIM21_ClrMosaic_global_232m''" by simp
  from t3 m have r5: "normalize_layer 7 ''MOLA'' = Inr ''Mars_MGS_MOLA_MEGR_global_463m''"
    by blast
  from t4 x have r6: "\<exists>d. normalize_layer 7 ''CTX'' = Inl (HTTPException 422 d) \<and>
        error_of d = Some ''unsupported_layer'' \<and>
        field_of ''supported'' d = Some (JList [viking_metadata 7, mola_metadata 7])"
    by blast
  show ?thesis using a c m x r1 r2 r3 r4 r5 r6 by blast
qed

subsection \<open>Earth date validation\<close>

lemma digit_cases:
  "is_digit c \<longleftrightarrow> c = CHR ''0'' \<or> c = CHR ''1'' \<or> c = CHR ''2'' \<or> c = CHR ''3'' \<or> c = CHR ''4''
     \<or> c = CHR ''5'' \<or> c = CHR ''6'' \<or> c = CHR ''7'' \<or> c = CHR ''8'' \<or> c = CHR ''9''"
  by (auto simp: is_digit_def)

lemma valid_date_bounds:
  "valid_date y m d \<Longrightarrow> 1 \<le> m \<and> m \<le> 12 \<and> 1 \<le> d \<and> d \<le> 31"
  by (auto simp: valid_date_def days_in_month_def split: if_splits)

lemma midnight_after:
  "dt_gt \<lparr>year = y, month = m, day = d, hour = 0, minute = 0, second = 0, microsecond = 0\<rparr> t
     = spec_date_after (y, m, d) (date_of t)"
  by (auto simp: dt_gt_def dt_fields_def date_of_def)

lemma date_pattern_iff:
  "date_pattern s \<longleftrightarrow>
     (\<exists>a b c d f g i j. s = [a, b, c, d, CHR ''-'', f, g, CHR ''-'', i, j] \<and>
        is_digit a \<and> is_digit b \<and> is_digit c \<and> is_digit d \<and>
        is_digit f \<and> is_digit g \<and> is_digit i \<and> is_digit j)"
  unfolding date_pattern_def
  by (simp split: list.split) blast

lemma digit_not_dash: "is_digit c \<Longrightarrow> expect_dash (c # rest) = None"
  by (auto simp: is_digit_def)

lemma month_cases:
  assumes "is_digit f" "is_digit g"
  shows "(1 \<le> 10 * dv f + dv g \<and> 10 * dv f + dv g \<le> 12 \<and>
            match_m (f # g # rest) = Some (10 * dv f + dv g, rest))
       \<or> (\<not> (1 \<le> 10 * dv f + dv g \<and> 10 * dv f + dv g \<le> 12) \<and>
            (match_m (f # g # rest) = None \<or> match_m (f # g # rest) = Some (dv f, g # rest)))"
  using assms unfolding digit_cases
  by (elim disjE) (simp_all add: dv_def digit_val_def)

lemma day_cases:
  assumes "is_digit i" "is_digit j"
  shows "(1 \<le> 10 * dv i + dv j \<and> 10 * dv i + dv j \<le> 31 \<and>
            match_d [i, j] = Some (10 * dv i + dv j, []))
       \<or> (\<not> (1 \<le> 10 * dv i + dv j \<and> 10 * dv i + dv j \<le> 31) \<and>
            (match_d [i, j] = None \<or> match_d [i, j] = Some (dv i, [j])))"
  using assms unfolding digit_cases
  by (elim disjE) (simp_all add: dv_def digit_val_def is_digit_def)

lemma strptime_shape:
  assumes "is_digit a" "is_digit b" "is_digit c" "is_digit d"
    "is_digit f" "is_digit g" "is_digit i" "is_digit j"
  shows "strptime [a, b, c, d, CHR ''-'', f, g, CHR ''-'', i, j] =
     (if valid_date (1000 * dv a + 100 * dv b + 10 * dv c + dv d) (10 * dv f + dv g)
           (10 * dv i + dv j)
      then Some \<lparr>year = 1000 * dv a + 100 * dv b + 10 * dv c + dv d, month = 10 * dv f + dv g,
                 day = 10 * dv i + dv j, hour = 0, minute = 0, second = 0, microsecond = 0\<rparr>
      else None)"
proof -
  let ?Y = "1000 * dv a + 100 * dv b + 10 * dv c + dv d"
  let ?M = "10 * dv f + dv g"
  let ?D = "10 * dv i + dv j"
  have y: "match_Y [a, b, c, d, CHR ''-'', f, g, CHR ''-'', i, j] =
      Some (?Y, [CHR ''-'', f, g, CHR ''-'', i, j])"
    using assms(1-4) by simp
  have gd: "expect_dash (g # CHR ''-'' # [i, j]) = None"
    using assms(6) by (rule digit_not_dash)
  from month_cases [OF assms(5,6), of "[CHR ''-'', i, j]"]
  show ?thesis
  proof (elim disjE conjE)
    assume m: "match_m [f, g, CHR ''-'', i, j] = Some (?M, [CHR ''-'', i, j])"
    from day_cases [OF assms(7,8)]
    show ?thesis
    proof (elim disjE conjE)
      assume "match_d [i, j] = Some (?D, [])"
      then show ?thesis by (simp add: strptime_def y m del: match_Y.simps match_m.simps match_d.simps)
    next
      assume n: "\<not> (1 \<le> ?D \<and> ?D \<le> 31)" and "match_d [i, j] = None"
      from n have "\<not> valid_date ?Y ?M ?D" using valid_date_bounds by blast
      then show ?thesis using \<open>match_d [i, j] = None\<close> by (simp add: strptime_def y m del: match_Y.simps match_m.simps match_d.simps)
    next
      assume n: "\<not> (1 \<le> ?D \<and> ?D \<le> 31)" and e: "match_d [i, j] = Some (dv i, [j])"
      from n have "\<not> valid_date ?Y ?M ?D" using valid_date_bounds by blast
      then show ?thesis using e by (simp add: strptime_def y m del: match_Y.simps match_m.simps match_d.simps)
    qed
  next
    assume n: "\<not> (1 \<le> ?M \<and> ?M \<le> 12)" and e: "match_m [f, g, CHR ''-'', i, j] = None"
    from n have "\<not> valid_date ?Y ?M ?D" using valid_date_bounds by blast
    then show ?thesis using e by (simp add: strptime_def y del: match_Y.simps match_m.simps match_d.simps)
  next
    assume n: "\<not> (1 \<le> ?M \<and> ?M \<le> 12)"
      and e: "match_m [f, g, CHR ''-'', i, j] = Some (dv f, [g, CHR ''-'', i, j])"
    from n have "\<not> valid_date ?Y ?M ?D" using valid_date_bounds by blast
    then show ?thesis using e gd by (simp add: strptime_def y del: match_Y.simps match_m.simps match_d.simps)
  qed
qed

lemma strptime_pattern:
  assumes "date_pattern s"
  shows "strptime s =
     (case spec_calendar_date s of
        None \<Rightarrow> None
      | Some (y, m, d) \<Rightarrow>
          Some \<lparr>year = y, month = m, day = d, hour = 0, minute = 0, second = 0,
                microsecond = 0\<rparr>)"
proof -
  from assms obtain a b c d f g i j where s: "s = [a, b, c, d, CHR ''-'', f, g, CHR ''-'', i, j]"
    and dg: "is_digit a" "is_digit b" "is_digit c" "is_digit d"
    "is_digit f" "is_digit g" "is_digit i" "is_digit j"
    unfolding date_pattern_iff by blast
  have sc: "spec_calendar_date s =
     (if valid_date (1000 * dv a + 100 * dv b + 10 * dv c + dv d) (10 * dv f + dv g)
           (10 * dv i + dv j)
      then Some (1000 * dv a + 100 * dv b + 10 * dv c + dv d, 10 * dv f + dv g,
                 10 * dv i + dv j)
      else None)"
    unfolding s spec_calendar_date_def using dg by simp
  show ?thesis
    unfolding sc unfolding s strptime_shape [OF dg] by simp
qed

lemma spec_calendar_date_pattern:
  "spec_calendar_date s = Some ymd \<Longrightarrow> date_pattern s"
  unfolding spec_calendar_date_def date_pattern_def
  by (simp split: list.splits if_splits)

lemma strptime_midnight:
  "strptime s = Some p \<Longrightarrow>
     p = \<lparr>year = year p, month = month p, day = day p, hour = 0, minute = 0, second = 0,
          microsecond = 0\<rparr>"
  by (auto simp: strptime_def split: option.splits prod.splits if_splits
      simp del: match_Y.simps match_m.simps match_d.simps)

lemma date_of_time [simp]:
  "date_of (t\<lparr>hour := h, minute := mi, second := s, microsecond := us\<rparr>) = date_of t"
  by (simp add: date_of_def)

lemma strftime_time [simp]:
  "strftime (t\<lparr>hour := h, minute := mi, second := s, microsecond := us\<rparr>) = strftime t"
  by (simp add: strftime_def)

lemma earth_validate_date_day:
  "earth_validate_date (utcnow\<lparr>hour := h, minute := mi, second := s, microsecond := us\<rparr>) date
     = earth_validate_date utcnow date"
proof (cases "strptime date")
  case None
  then show ?thesis by (simp add: earth_validate_date_def)
next
  case (Some p)
  from strptime_midnight [OF Some] obtain y m d where
    p: "p = \<lparr>year = y, month = m, day = d, hour = 0, minute = 0, second = 0, microsecond = 0\<rparr>"
    by blast
  show ?thesis
    by (simp add: earth_validate_date_def Some p midnight_after)
qed

lemma earth_date_accept:
  assumes "spec_calendar_date date = Some ymd" "\<not> spec_date_after ymd (date_of utcnow)"
  shows "earth_validate_date utcnow date = Inr ()"
proof -
  obtain y m d where ymd: "ymd = (y, m, d)" by (cases ymd)
  have "date_pattern date" using assms(1) by (rule spec_calendar_date_pattern)
  then show ?thesis
    using assms unfolding ymd
    by (simp add: earth_validate_date_def strptime_pattern midnight_after)
qed

lemma earth_date_future:
  assumes "spec_calendar_date date = Some ymd" "spec_date_after ymd (date_of utcnow)"
  shows "\<exists>d. earth_validate_date utcnow date = Inl (HTTPException 400 d) \<and>
             error_of d = Some ''Invalid date''"
proof -
  obtain y m d where ymd: "ymd = (y, m, d)" by (cases ymd)
  have "date_pattern date" using assms(1) by (rule spec_calendar_date_pattern)
  then show ?thesis
    using assms unfolding ymd
    by (simp add: earth_validate_date_def strptime_pattern midnight_after)
qed

lemma earth_date_unreal:
  assumes "date_pattern date" "spec_calendar_date date = None"
  shows "\<exists>d. earth_validate_date utcnow date = Inl (HTTPException 400 d) \<and>
             error_of d = Some ''Invalid date format''"
  using assms by (simp add: earth_validate_date_def strptime_pattern)

lemma earth_date_iff:
  assumes "date_pattern date"
  shows "(earth_validate_date utcnow date = Inr ()) =
     (\<exists>ymd. spec_calendar_date date = Some ymd \<and> \<not> spec_date_after ymd (date_of utcnow))"
proof (cases "spec_calendar_date date")
  case None
  with earth_date_unreal [OF assms None, of utcnow] show ?thesis by auto
next
  case (Some ymd)
  show ?thesis
  proof (cases "spec_date_after ymd (date_of utcnow)")
    case True
    with earth_date_future [OF Some True] Some show ?thesis by auto
  next
    case False
    with earth_date_accept [OF Some False] Some show ?thesis by auto
  qed
qed

text \<open>
  C5, as the code has it. For every date string of the declared shape (four digits, two
  digits, two digits, with dashes) Earth date validation succeeds if and only if the
  string is a real calendar date that is not strictly after the current UTC date; it
  fails with the 400 "Invalid date format" when the string is no real calendar date and
  with the 400 "Invalid date" when the date is strictly after the current UTC date. The
  handler compares the parsed midnight with the current UTC instant, which decides the
  same as comparing the two calendar dates: the result does not depend on the time of
  day. A string that is not of the declared shape is rejected by the pattern declared on
  the query parameter, with the framework's validation error, before the handler runs.
\<close>

theorem earth_date_validation:
  "(date_pattern date \<longrightarrow>
      (earth_validate_date utcnow date = Inr ()) =
      (\<exists>ymd. spec_calendar_date date = Some ymd \<and> \<not> spec_date_after ymd (date_of utcnow)))
   \<and> (date_pattern date \<and> spec_calendar_date date = None \<longrightarrow>
      (\<exists>d. earth_validate_date utcnow date = Inl (HTTPException 400 d) \<and>
           error_of d = Some ''Invalid date format''))
   \<and> (spec_calendar_date date = Some ymd \<and> spec_date_after ymd (date_of utcnow) \<longrightarrow>
      (\<exists>d. earth_validate_date utcnow date = Inl (HTTPException 400 d) \<and>
           error_of d = Some ''Invalid date''))
   \<and> (spec_calendar_date date = Some ymd \<and> \<not> spec_date_after ymd (date_of utcnow) \<longrightarrow>
      earth_validate_date utcnow date = Inr ())
   \<and> earth_validate_date (utcnow\<lparr>hour := h, minute := mi, second := s, microsecond := us\<rparr>)
        date = earth_validate_date utcnow date
   \<and> (\<not> date_pattern date \<longrightarrow>
      (\<exists>names. earth_route utcnow client_get layer date z y x tile_matrix_set format requested
                 = (Inl (RequestValidationError names), requested)))"
proof (intro conjI impI)
  assume "date_pattern date"
  then show "(earth_validate_date utcnow date = Inr ()) =
      (\<exists>ymd. spec_calendar_date date = Some ymd \<and> \<not> spec_date_after ymd (date_of utcnow))"
    by (rule earth_date_iff)
next
  assume "date_pattern date \<and> spec_calendar_date date = None"
  then show "\<exists>d. earth_validate_date utcnow date = Inl (HTTPException 400 d) \<and>
           error_of d = Some ''Invalid date format''"
    using earth_date_unreal by blast
next
  assume "spec_calendar_date date = Some ymd \<and> spec_date_after ymd (date_of utcnow)"
  then show "\<exists>d. earth_validate_date utcnow date = Inl (HTTPException 400 d) \<and>
           error_of d = Some ''Invalid date''"
    using earth_date_future by blast
next
  assume "spec_calendar_date date = Some ymd \<and> \<not> spec_date_after ymd (date_of utcnow)"
  then show "earth_validate_date utcnow date = Inr ()"
    using earth_date_accept by blast
next
  show "earth_validate_date (utcnow\<lparr>hour := h, minute := mi, second := s, microsecond := us\<rparr>)
        date = earth_validate_date utcnow date"
    by (rule earth_validate_date_day)
next
  assume "\<not> date_pattern date"
  then have "earth_query date z y x format \<noteq> Inr ()" by (simp add: earth_query_ok)
  then show "\<exists>names. earth_route utcnow client_get layer date z y x tile_matrix_set format
                 requested = (Inl (RequestValidationError names), requested)"
    by (rule earth_route_rejects)
qed

lemmas calendar_eval = spec_calendar_date_def is_digit_def dv_def digit_val_def valid_date_def
  days_in_month_def is_leap_def

theorem earth_date_validation_witness:
  "spec_calendar_date ''2025-10-03'' = Some (2025, 10, 3) \<and>
   \<not> spec_date_after (2025, 10, 3) (date_of sample_utcnow) \<and>
   earth_validate_date sample_utcnow ''2025-10-03'' = Inr () \<and>
   spec_calendar_date ''2025-11-01'' = Some (2025, 11, 1) \<and>
   \<not> spec_date_after (2025, 11, 1) (date_of sample_utcnow) \<and>
   earth_validate_date sample_utcnow ''2025-11-01'' = Inr () \<and>
   spec_calendar_date ''2025-11-02'' = Some (2025, 11, 2) \<and>
   spec_date_after (2025, 11, 2) (date_of sample_utcnow) \<and>
   (\<exists>d. earth_validate_date sample_utcnow ''2025-11-02'' = Inl (HTTPException 400 d) \<and>
        error_of d = Some ''Invalid date'') \<and>
   date_pattern ''2025-02-30'' \<and> spec_calendar_date ''2025-02-30'' = None \<and>
   (\<exists>d. earth_validate_date sample_utcnow ''2025-02-30'' = Inl (HTTPException 400 d) \<and>
        error_of d = Some ''Invalid date format'') \<and>
   \<not> date_pattern ''yesterday'' \<and>
   (\<exists>names. earth_route sample_utcnow sample_upstream EARTH_DEFAULT_LAYER ''yesterday'' 6 18 23
               EARTH_DEFAULT_TMS ''jpg'' []
             = (Inl (RequestValidationError names), []))"
proof -
  have a1: "spec_calendar_date ''2025-10-03'' = Some (2025, 10, 3)"
    by (simp add: calendar_eval)
  have a2: "\<not> spec_date_after (2025, 10, 3) (date_of sample_utcnow)"
    by (simp add: date_of_def sample_utcnow_def)
  have b1: "spec_calendar_date ''2025-11-01'' = Some (2025, 11, 1)"
    by (simp add: calendar_eval)
  have b2: "\<not> spec_date_after (2025, 11, 1) (date_of sample_utcnow)"
    by (simp add: date_of_def sample_utcnow_def)
  have c1: "spec_calendar_date ''2025-11-02'' = Some (2025, 11, 2)"
    by (simp add: calendar_eval)
  have c2: "spec_date_after (2025, 11, 2) (date_of sample_utcnow)"
    by (simp add: date_of_def sample_utcnow_def)
  have d1: "date_pattern ''2025-02-30''"
    by (simp add: date_pattern_def is_digit_def)
  have d2: "spec_calendar_date ''2025-02-30'' = None"
    by (simp add: calendar_eval)
  have e1: "\<not> date_pattern ''yesterday''"
    by (simp add: date_pattern_def)
  note ta = earth_date_validation [of "''2025-10-03''" sample_utcnow "(2025, 10, 3)"]
  note tb = earth_date_validation [of "''2025-11-01''" sample_utcnow "(2025, 11, 1)"]
  note tc = earth_date_validation [of "''2025-11-02''" sample_utcnow "(2025, 11, 2)"]
  note td = earth_date_validation [of "''2025-02-30''" sample_utcnow]
  note te = earth_date_validation [where date = "''yesterday''" and utcnow = sample_utcnow
      and client_get = sample_upstream and layer = EARTH_DEFAULT_LAYER and z = 6 and y = 18
      and x = 23 and tile_matrix_set = EARTH_DEFAULT_TMS and format = "''jpg''"
      and requested = "[]"]
  from ta a1 a2 have ra: "earth_validate_date sample_utcnow ''2025-10-03'' = Inr ()" by blast
  from tb b1 b2 have rb: "earth_validate_date sample_utcnow ''2025-11-01'' = Inr ()" by blast
  from tc c1 c2 have rc: "\<exists>d. earth_validate_date sample_utcnow ''2025-11-02'' =
      Inl (HTTPException 400 d) \<and> error_of d = Some ''Invalid date''" by blast
  from td d1 d2 have rd: "\<exists>d. earth_validate_date sample_utcnow ''2025-02-30'' =
      Inl (HTTPException 400 d) \<and> error_of d = Some ''Invalid date format''" by blast
  from te e1 have re: "\<exists>names. earth_route sample_utcnow sample_upstream EARTH_DEFAULT_LAYER
      ''yesterday'' 6 18 23 EARTH_DEFAULT_TMS ''jpg'' [] = (Inl (RequestValidationError names), [])"
    by blast
  show ?thesis using a1 a2 b1 b2 c1 c2 d1 d2 e1 ra rb rc rd re by blast
qed

text \<open>
  C5 as stated fails at \<open>2025-1-5\<close>, which is not in the form YYYY-MM-DD: the handler's
  date validation accepts it (the parser takes a month and a day without the leading
  zero), and the route rejects it by the declared pattern, with a validation error
  rather than the 400 for an invalid date.
\<close>

theorem earth_date_validation_counterexample:
  "spec_calendar_date ''2025-1-5'' = None \<and>
   earth_validate_date sample_utcnow ''2025-1-5'' = Inr () \<and>
   earth_route sample_utcnow sample_upstream EARTH_DEFAULT_LAYER ''2025-1-5'' 6 18 23
     EARTH_DEFAULT_TMS ''jpg'' [] = (Inl (RequestValidationError [''date'']), [])"
proof -
  have a: "spec_calendar_date ''2025-1-5'' = None"
    by (simp add: spec_calendar_date_def)
  have b: "earth_validate_date sample_utcnow ''2025-1-5'' = Inr ()"
    by (simp add: earth_validate_date_def strptime_eval dt_eval sample_utcnow_def)
  have c: "earth_route sample_utcnow sample_upstream EARTH_DEFAULT_LAYER ''2025-1-5'' 6 18 23
     EARTH_DEFAULT_TMS ''jpg'' [] = (Inl (RequestValidationError [''date'']), [])"
    by (simp add: earth_route_def earth_query_def violations_def date_pattern_def
        EARTH_MAX_ZOOM_def)
  show ?thesis using a b c by simp
qed

subsection \<open>No upstream request for invalid input\<close>










lemma unit_sum_cases: "(s :: exn + unit) = Inr () \<or> (\<exists>e. s = Inl e)"
  by (cases s) auto


lemma earth_one_fetch:
  assumes "earth_validate_date utcnow date = Inr ()" "earth_validate_coordinates z x y = Inr ()"
  shows "snd (get_earth_tile utcnow client_get layer date z y x tile_matrix_set format requested)
           = requested @ [earth_tile_url layer date tile_matrix_set z y x format]"
  using assms by (simp add: get_earth_tile_def Let_def)


lemma moon_one_fetch:
  assumes "moon_validate_coordinates z x y = Inr ()"
  shows "snd (get_moon_tile client_get z y x layer version style tile_matrix_set format requested)
           = requested @ [moon_tile_url layer version style tile_matrix_set z y x format]"
  using assms by (simp add: get_moon_tile_def Let_def)


lemma mars_one_fetch:
  assumes "validate_zoom_level MAX_ZOOM z = Inr ()" "normalize_layer MAX_ZOOM layer = Inr c"
    "validate_tile_coordinates z x y = Inr ()"
  shows "snd (get_mars_tile MAX_ZOOM client_get z y x layer version style tile_matrix_set format
                requested)
           = requested @ [mars_tile_url c version style tile_matrix_set z y x format]"
  using assms by (simp add: get_mars_tile_def Let_def)


lemma mercury_one_fetch:
  assumes "mercury_validate_format format = Inr ()" "mercury_validate_zoom z = Inr ()"
    "mercury_validate_coordinates z x y = Inr ()"
  shows "snd (get_mercury_tile client_get z x y layer version style TileMatrixSet format
                requested)
           = requested @ [mercury_tile_url layer version style TileMatrixSet z y x format]"
  using assms by (simp add: get_mercury_tile_def Let_def)



subsection \<open>The upstream outcome\<close>

lemma earth_handler_classifies:
  assumes "earth_validate_date utcnow date = Inr ()" "earth_validate_coordinates z x y = Inr ()"
  shows "get_earth_tile utcnow client_get layer date z y x tile_matrix_set format requested =
     (earth_classify (client_get (earth_tile_url layer date tile_matrix_set z y x format))
        (earth_tile_url layer date tile_matrix_set z y x format) layer date z y x format,
      requested @ [earth_tile_url layer date tile_matrix_set z y x format])"
  using assms by (simp add: get_earth_tile_def Let_def)

lemma moon_handler_classifies:
  assumes "moon_validate_coordinates z x y = Inr ()"
  shows "get_moon_tile client_get z y x layer version style tile_matrix_set format requested =
     (moon_classify (client_get (moon_tile_url layer version style tile_matrix_set z y x format))
        (moon_tile_url layer version style tile_matrix_set z y x format) layer z y x format,
      requested @ [moon_tile_url layer version style tile_matrix_set z y x format])"
  using assms by (simp add: get_moon_tile_def Let_def)

lemma mars_handler_classifies:
  assumes "validate_zoom_level MAX_ZOOM z = Inr ()" "normalize_layer MAX_ZOOM layer = Inr c"
    "validate_tile_coordinates z x y = Inr ()"
  shows "get_mars_tile MAX_ZOOM client_get z y x layer version style tile_matrix_set format
           requested =
     (mars_classify MAX_ZOOM
        (client_get (mars_tile_url c version style tile_matrix_set z y x format))
        (mars_tile_url c version style tile_matrix_set z y x format) c z y x format,
      requested @ [mars_tile_url c version style tile_matrix_set z y x format])"
  using assms by (simp add: get_mars_tile_def Let_def)

lemma mercury_handler_classifies:
  assumes "mercury_validate_format format = Inr ()" "mercury_validate_zoom z = Inr ()"
    "mercury_validate_coordinates z x y = Inr ()"
  shows "get_mercury_tile client_get z x y layer version style TileMatrixSet format requested =
     (mercury_classify
        (client_get (mercury_tile_url layer version style TileMatrixSet z y x format))
        (mercury_tile_url layer version style TileMatrixSet z y x format)
        layer version z y x style TileMatrixSet format,
      requested @ [mercury_tile_url layer version style TileMatrixSet z y x format])"
  using assms by (simp add: get_mercury_tile_def Let_def)

lemmas classify_defs = classify_def earth_classify_def moon_classify_def mars_classify_def
  mercury_classify_def

lemma classify_404:
  "\<exists>d. classify b MAX_ZOOM (Response 404 bytes) tile_url layer date version z y x style
          tile_matrix_set format = Inl (HTTPException 404 d) \<and>
       (error_of d = Some ''Tile not found'' \<or> error_of d = Some ''tile_not_found'')"
  by (cases b) (simp_all add: classify_defs)

lemma classify_success:
  assumes "(b \<noteq> Mercury \<and> is_success status_code) \<or> (b = Mercury \<and> status_code = 200)"
  shows "\<exists>hs. classify b MAX_ZOOM (Response status_code bytes) tile_url layer date version
            z y x style tile_matrix_set format =
          Inr \<lparr>content = bytes, media_type = content_type_of format, headers = hs\<rparr>"
  using assms by (cases b) (auto simp: classify_defs is_success_def)

lemma classify_upstream_error:
  assumes "b \<noteq> Mercury" "status_code \<noteq> 404" "\<not> is_success status_code"
  shows "\<exists>d. classify b MAX_ZOOM (Response status_code bytes) tile_url layer date version
            z y x style tile_matrix_set format = Inl (HTTPException status_code d) \<and>
          (error_of d = Some ''GIBS service error'' \<or> error_of d = Some ''Trek service error''
           \<or> error_of d = Some ''trek_service_error'')"
  using assms by (cases b) (simp_all add: classify_defs)

lemma classify_upstream_error_mercury:
  assumes "status_code \<noteq> 404" "status_code \<noteq> 200"
  shows "\<exists>d. classify Mercury MAX_ZOOM (Response status_code bytes) tile_url layer date
            version z y x style tile_matrix_set format = Inl (HTTPException 502 d) \<and>
          error_of d = Some ''Upstream service error'' \<and>
          field_of ''status_code'' d = Some (JInt status_code)"
  using assms by (simp add: classify_defs)

lemma classify_network_error:
  "\<exists>d. classify b MAX_ZOOM (RequestError msg) tile_url layer date version z y x style
          tile_matrix_set format = Inl (HTTPException 502 d) \<and>
       (error_of d = Some ''Network error'' \<or> error_of d = Some ''network_error'')"
  by (cases b) (simp_all add: classify_defs)

lemma classify_timeout:
  "\<exists>d. classify b MAX_ZOOM (TimeoutException msg) tile_url layer date version z y x style
          tile_matrix_set format = Inl (HTTPException 502 d) \<and>
       (if b = Mercury then error_of d = Some ''Request timeout''
        else error_of d = Some ''Network error'' \<or> error_of d = Some ''network_error'')"
  by (cases b) (simp_all add: classify_defs)

lemma content_type_table:
  "content_type_of ''jpg'' = ''image/jpeg''" "content_type_of ''jpeg'' = ''image/jpeg''"
  "content_type_of ''png'' = ''image/png''" "content_type_of ''png8'' = ''image/png''"
  "content_type_of ''tif'' = ''image/tiff''" "content_type_of ''tiff'' = ''image/tiff''"
  by (simp_all add: content_type_of_def CONTENT_TYPE_MAP_def)

lemma content_type_default:
  "format \<notin> {''jpg'', ''jpeg'', ''png'', ''png8'', ''tif'', ''tiff''} \<Longrightarrow>
     content_type_of format = ''image/jpeg''"
  by (simp add: content_type_of_def CONTENT_TYPE_MAP_def)

text \<open>
  C7, as the code has it. In every handler an upstream 404 becomes a 404 tile-not-found
  error, a connection failure becomes a 502 network error, and the media type of a success
  comes from the requested format by the static table (jpg and jpeg to image/jpeg, png and
  png8 to image/png, tif and tiff to image/tiff, anything else to image/jpeg). In the
  Earth, Moon and Mars handlers every upstream 2xx is a success carrying the raw bytes,
  every other status is an upstream error with the same status code, and a timeout becomes
  the same 502 network error as a connection failure. In the Mercury handler only an
  upstream 200 is a success, every other status except 404 becomes a 502 upstream error
  that reports the status, and a timeout becomes a 502 "Request timeout". For a request
  that passes the validations, what the handler returns is this classification of what
  the GET produced.
\<close>

theorem upstream_classification:
  "(\<exists>d. classify b MAX_ZOOM (Response 404 bytes) tile_url layer date version z y x style
          tile_matrix_set format = Inl (HTTPException 404 d) \<and>
        (error_of d = Some ''Tile not found'' \<or> error_of d = Some ''tile_not_found''))
   \<and> ((b \<noteq> Mercury \<and> is_success status_code) \<or> (b = Mercury \<and> status_code = 200) \<longrightarrow>
      (\<exists>hs. classify b MAX_ZOOM (Response status_code bytes) tile_url layer date version
              z y x style tile_matrix_set format =
            Inr \<lparr>content = bytes, media_type = content_type_of format, headers = hs\<rparr>))
   \<and> (b \<noteq> Mercury \<and> status_code \<noteq> 404 \<and> \<not> is_success status_code \<longrightarrow>
      (\<exists>d. classify b MAX_ZOOM (Response status_code bytes) tile_url layer date version
             z y x style tile_matrix_set format = Inl (HTTPException status_code d) \<and>
           (error_of d = Some ''GIBS service error'' \<or> error_of d = Some ''Trek service error''
            \<or> error_of d = Some ''trek_service_error'')))
   \<and> (status_code \<noteq> 404 \<and> status_code \<noteq> 200 \<longrightarrow>
      (\<exists>d. classify Mercury MAX_ZOOM (Response status_code bytes) tile_url layer date
             version z y x style tile_matrix_set format = Inl (HTTPException 502 d) \<and>
           error_of d = Some ''Upstream service error'' \<and>
           field_of ''status_code'' d = Some (JInt status_code)))
   \<and> (\<exists>d. classify b MAX_ZOOM (RequestError msg) tile_url layer date version z y x style
          tile_matrix_set format = Inl (HTTPException 502 d) \<and>
        (error_of d = Some ''Network error'' \<or> error_of d = Some ''network_error''))
   \<and> (\<exists>d. classify b MAX_ZOOM (TimeoutException msg) tile_url layer date version z y x style
          tile_matrix_set format = Inl (HTTPException 502 d) \<and>
        (if b = Mercury then error_of d = Some ''Request timeout''
         else error_of d = Some ''Network error'' \<or> error_of d = Some ''network_error''))
   \<and> content_type_of ''jpg'' = ''image/jpeg'' \<and> content_type_of ''jpeg'' = ''image/jpeg''
   \<and> content_type_of ''png'' = ''image/png'' \<and> content_type_of ''png8'' = ''image/png''
   \<and> content_type_of ''tif'' = ''image/tiff'' \<and> content_type_of ''tiff'' = ''image/tiff''
   \<and> (format \<notin> {''jpg'', ''jpeg'', ''png'', ''png8'', ''tif'', ''tiff''} \<longrightarrow>
      content_type_of format = ''image/jpeg'')
   \<and> (0 \<le> z \<and> earth_validate_date utcnow date = Inr () \<and>
       earth_validate_coordinates z x y = Inr () \<longrightarrow>
      fst (get_earth_tile utcnow client_get layer date z y x tile_matrix_set format requested) =
        classify Earth MAX_ZOOM
          (client_get (earth_tile_url layer date tile_matrix_set z y x format))
          (earth_tile_url layer date tile_matrix_set z y x format)
          layer date version z y x style tile_matrix_set format)
   \<and> (0 \<le> z \<and> moon_validate_coordinates z x y = Inr () \<longrightarrow>
      fst (get_moon_tile client_get z y x layer version style tile_matrix_set format requested) =
        classify Moon MAX_ZOOM
          (client_get (moon_tile_url layer version style tile_matrix_set z y x format))
          (moon_tile_url layer version style tile_matrix_set z y x format)
          layer date version z y x style tile_matrix_set format)
   \<and> (validate_zoom_level MAX_ZOOM z = Inr () \<and> normalize_layer MAX_ZOOM layer = Inr c \<and>
       validate_tile_coordinates z x y = Inr () \<longrightarrow>
      fst (get_mars_tile MAX_ZOOM client_get z y x layer version style tile_matrix_set format
             requested) =
        classify Mars MAX_ZOOM
          (client_get (mars_tile_url c version style tile_matrix_set z y x format))
          (mars_tile_url c version style tile_matrix_set z y x format)
          c date version z y x style tile_matrix_set format)
   \<and> (mercury_validate_format format = Inr () \<and> mercury_validate_zoom z = Inr () \<and>
       mercury_validate_coordinates z x y = Inr () \<longrightarrow>
      fst (get_mercury_tile client_get z x y layer version style tile_matrix_set format
             requested) =
        classify Mercury MAX_ZOOM
          (client_get (mercury_tile_url layer version style tile_matrix_set z y x format))
          (mercury_tile_url layer version style tile_matrix_set z y x format)
          layer date version z y x style tile_matrix_set format)"
proof (intro conjI impI)
  show "\<exists>d. classify b MAX_ZOOM (Response 404 bytes) tile_url layer date version z y x style
          tile_matrix_set format = Inl (HTTPException 404 d) \<and>
        (error_of d = Some ''Tile not found'' \<or> error_of d = Some ''tile_not_found'')"
    by (rule classify_404)
next
  assume "(b \<noteq> Mercury \<and> is_success status_code) \<or> (b = Mercury \<and> status_code = 200)"
  then show "\<exists>hs. classify b MAX_ZOOM (Response status_code bytes) tile_url layer date version
              z y x style tile_matrix_set format =
            Inr \<lparr>content = bytes, media_type = content_type_of format, headers = hs\<rparr>"
    by (rule classify_success)
next
  assume "b \<noteq> Mercury \<and> status_code \<noteq> 404 \<and> \<not> is_success status_code"
  then show "\<exists>d. classify b MAX_ZOOM (Response status_code bytes) tile_url layer date version
             z y x style tile_matrix_set format = Inl (HTTPException status_code d) \<and>
           (error_of d = Some ''GIBS service error'' \<or> error_of d = Some ''Trek service error''
            \<or> error_of d = Some ''trek_service_error'')"
    using classify_upstream_error by blast
next
  assume "status_code \<noteq> 404 \<and> status_code \<noteq> 200"
  then show "\<exists>d. classify Mercury MAX_ZOOM (Response status_code bytes) tile_url layer date
             version z y x style tile_matrix_set format = Inl (HTTPException 502 d) \<and>
           error_of d = Some ''Upstream service error'' \<and>
           field_of ''status_code'' d = Some (JInt status_code)"
    using classify_upstream_error_mercury by blast
next
  show "\<exists>d. classify b MAX_ZOOM (RequestError msg) tile_url layer date version z y x style
          tile_matrix_set format = Inl (HTTPException 502 d) \<and>
        (error_of d = Some ''Network error'' \<or> error_of d = Some ''network_error'')"
    by (rule classify_network_error)
next
  show "\<exists>d. classify b MAX_ZOOM (TimeoutException msg) tile_url layer date version z y x style
          tile_matrix_set format = Inl (HTTPException 502 d) \<and>
        (if b = Mercury then error_of d = Some ''Request timeout''
         else error_of d = Some ''Network error'' \<or> error_of d = Some ''network_error'')"
    by (rule classify_timeout)
next
  assume "format \<notin> {''jpg'', ''jpeg'', ''png'', ''png8'', ''tif'', ''tiff''}"
  then show "content_type_of format = ''image/jpeg''" by (rule content_type_default)
next
  assume "0 \<le> z \<and> earth_validate_date utcnow date = Inr () \<and>
       earth_validate_coordinates z x y = Inr ()"
  then show "fst (get_earth_tile utcnow client_get layer date z y x tile_matrix_set format
        requested) =
        classify Earth MAX_ZOOM
          (client_get (earth_tile_url layer date tile_matrix_set z y x format))
          (earth_tile_url layer date tile_matrix_set z y x format)
          layer date version z y x style tile_matrix_set format"
    by (simp add: earth_handler_classifies classify_def)
next
  assume "0 \<le> z \<and> moon_validate_coordinates z x y = Inr ()"
  then show "fst (get_moon_tile client_get z y x layer version style tile_matrix_set format
        requested) =
        classify Moon MAX_ZOOM
          (client_get (moon_tile_url layer version style tile_matrix_set z y x format))
          (moon_tile_url layer version style tile_matrix_set z y x format)
          layer date version z y x style tile_matrix_set format"
    by (simp add: moon_handler_classifies classify_def)
next
  assume "validate_zoom_level MAX_ZOOM z = Inr () \<and> normalize_layer MAX_ZOOM layer = Inr c \<and>
       validate_tile_coordinates z x y = Inr ()"
  then show "fst (get_mars_tile MAX_ZOOM client_get z y x layer version style tile_matrix_set
        format requested) =
        classify Mars MAX_ZOOM
          (client_get (mars_tile_url c version style tile_matrix_set z y x format))
          (mars_tile_url c version style tile_matrix_set z y x format)
          c date version z y x style tile_matrix_set format"
    by (simp add: mars_handler_classifies classify_def)
next
  assume "mercury_validate_format format = Inr () \<and> mercury_validate_zoom z = Inr () \<and>
       mercury_validate_coordinates z x y = Inr ()"
  then show "fst (get_mercury_tile client_get z x y layer version style tile_matrix_set format
        requested) =
        classify Mercury MAX_ZOOM
          (client_get (mercury_tile_url layer version style tile_matrix_set z y x format))
          (mercury_tile_url layer version style tile_matrix_set z y x format)
          layer date version z y x style tile_matrix_set format"
    by (simp add: mercury_handler_classifies classify_def)
qed (simp_all add: content_type_table)

text \<open>
  C7 as stated fails on Mercury for an upstream 204, a 2xx that the handler answers with
  the 502 upstream error, and on Earth for a timeout, whose kind is the network error.
\<close>

theorem upstream_classification_counterexample:
  "is_success 204 \<and>
   status_of_result
     (fst (get_mercury_tile upstream_204 3 8 4 ''L'' ''1.0.0'' ''default'' ''default028mm''
             ''jpg'' [])) = 502 \<and>
   kind_of_result
     (fst (get_mercury_tile upstream_204 3 8 4 ''L'' ''1.0.0'' ''default'' ''default028mm''
             ''jpg'' [])) = Some ''Upstream service error'' \<and>
   status_of_result
     (fst (get_earth_tile sample_utcnow upstream_timeout EARTH_DEFAULT_LAYER ''2025-10-03''
             6 18 23 EARTH_DEFAULT_TMS ''jpg'' [])) = 502 \<and>
   kind_of_result
     (fst (get_earth_tile sample_utcnow upstream_timeout EARTH_DEFAULT_LAYER ''2025-10-03''
             6 18 23 EARTH_DEFAULT_TMS ''jpg'' [])) = Some ''Network error''"
proof -
  have f: "mercury_validate_format ''jpg'' = Inr ()"
    by (simp add: mercury_validate_format_def lower_eval)
  have zz: "mercury_validate_zoom 3 = Inr ()"
    by (simp add: mercury_zoom_ok)
  have c: "mercury_validate_coordinates 3 8 4 = Inr ()"
    by (simp add: mercury_coordinates_ok)
  have m: "fst (get_mercury_tile upstream_204 3 8 4 ''L'' ''1.0.0'' ''default'' ''default028mm''
             ''jpg'' []) =
      mercury_classify (Response 204 [])
        (mercury_tile_url ''L'' ''1.0.0'' ''default'' ''default028mm'' 3 4 8 ''jpg'')
        ''L'' ''1.0.0'' 3 4 8 ''default'' ''default028mm'' ''jpg''"
    by (simp add: mercury_handler_classifies [OF f zz c] upstream_204_def)
  have d: "earth_validate_date sample_utcnow ''2025-10-03'' = Inr ()"
    by (simp add: earth_validate_date_def strptime_eval dt_eval sample_utcnow_def)
  have ec: "earth_validate_coordinates 6 23 18 = Inr ()"
    by (simp add: earth_coordinates_ok)
  have e: "fst (get_earth_tile sample_utcnow upstream_timeout EARTH_DEFAULT_LAYER ''2025-10-03''
             6 18 23 EARTH_DEFAULT_TMS ''jpg'' []) =
      earth_classify (TimeoutException ''timed out'')
        (earth_tile_url EARTH_DEFAULT_LAYER ''2025-10-03'' EARTH_DEFAULT_TMS 6 18 23 ''jpg'')
        EARTH_DEFAULT_LAYER ''2025-10-03'' 6 18 23 ''jpg''"
    by (simp add: earth_handler_classifies [OF d ec] upstream_timeout_def)
  show ?thesis
    unfolding m e
    by (simp add: is_success_def status_of_result_def kind_of_result_def mercury_classify_def
        earth_classify_def)
qed

theorem upstream_classification_witness:
  "is_success 206 \<and>
   (\<exists>hs. classify Earth 7 (Response 206 ''bytes'') ''u'' ''L'' ''2025-10-03'' ''1.0.0'' 6 18 23
           ''default'' ''T'' ''png'' =
         Inr \<lparr>content = ''bytes'', media_type = ''image/png'', headers = hs\<rparr>) \<and>
   \<not> is_success 503 \<and>
   (\<exists>d. classify Moon 7 (Response 503 ''bytes'') ''u'' ''L'' ''2025-10-03'' ''1.0.0'' 6 18 23
           ''default'' ''T'' ''png'' = Inl (HTTPException 503 d)) \<and>
   (\<exists>d. classify Mercury 7 (Response 503 ''bytes'') ''u'' ''L'' ''2025-10-03'' ''1.0.0'' 6 18 23
           ''default'' ''T'' ''png'' = Inl (HTTPException 502 d) \<and>
        error_of d = Some ''Upstream service error'') \<and>
   ''bmp'' \<notin> {''jpg'', ''jpeg'', ''png'', ''png8'', ''tif'', ''tiff''} \<and>
   content_type_of ''bmp'' = ''image/jpeg'' \<and>
   (0::int) \<le> 2 \<and> moon_validate_coordinates 2 3 1 = Inr () \<and>
   fst (get_moon_tile sample_upstream 2 1 3 ''L'' ''1.0.0'' ''default'' ''T'' ''png'' []) =
     classify Moon 7 (Response 200 ''bytes'')
       (moon_tile_url ''L'' ''1.0.0'' ''default'' ''T'' 2 1 3 ''png'')
       ''L'' ''2025-10-03'' ''1.0.0'' 2 1 3 ''default'' ''T'' ''png''"
proof -
  have s1: "is_success 206" and s2: "\<not> is_success 503" by (simp_all add: is_success_def)
  have f: "''bmp'' \<notin> {''jpg'', ''jpeg'', ''png'', ''png8'', ''tif'', ''tiff''}" by simp
  have mc: "moon_validate_coordinates 2 3 1 = Inr ()" by (simp add: moon_coordinates_ok)
  have z0: "(0::int) \<le> 2" by simp
  note ta = upstream_classification [where b = Earth and MAX_ZOOM = 7 and status_code = 206
      and bytes = "''bytes''" and tile_url = "''u''" and layer = "''L''"
      and date = "''2025-10-03''" and version = "''1.0.0''" and z = 6 and y = 18 and x = 23
      and style = "''default''" and tile_matrix_set = "''T''" and format = "''png''"
      and msg = "''m''" and utcnow = sample_utcnow and client_get = sample_upstream
      and requested = "[]" and c = "''L''", THEN conjunct2, THEN conjunct1]
  note tb = upstream_classification [where b = Moon and MAX_ZOOM = 7 and status_code = 503
      and bytes = "''bytes''" and tile_url = "''u''" and layer = "''L''"
      and date = "''2025-10-03''" and version = "''1.0.0''" and z = 6 and y = 18 and x = 23
      and style = "''default''" and tile_matrix_set = "''T''" and format = "''png''"
      and msg = "''m''" and utcnow = sample_utcnow and client_get = sample_upstream
      and requested = "[]" and c = "''L''", THEN conjunct2, THEN conjunct2, THEN conjunct1]
  note tc = upstream_classification [where b = Moon and MAX_ZOOM = 7 and status_code = 503
      and bytes = "''bytes''" and tile_url = "''u''" and layer = "''L''"
      and date = "''2025-10-03''" and version = "''1.0.0''" and z = 6 and y = 18 and x = 23
      and style = "''default''" and tile_matrix_set = "''T''" and format = "''png''"
      and msg = "''m''" and utcnow = sample_utcnow and client_get = sample_upstream
      and requested = "[]" and c = "''L''", THEN conjunct2, THEN conjunct2, THEN conjunct2, THEN conjunct1]
  note td = upstream_classification [where b = Moon and MAX_ZOOM = 7 and status_code = 503
      and bytes = "''bytes''" and tile_url = "''u''" and layer = "''L''"
      and date = "''2025-10-03''" and version = "''1.0.0''" and z = 6 and y = 18 and x = 23
      and style = "''default''" and tile_matrix_set = "''T''" and format = "''bmp''"
      and msg = "''m''" and utcnow = sample_utcnow and client_get = sample_upstream
      and requested = "[]" and c = "''L''", THEN conjunct2, THEN conjunct2, THEN conjunct2, THEN conjunct2, THEN conjunct2, THEN conjunct2, THEN conjunct2, THEN conjunct2, THEN conjunct2, THEN conjunct2, THEN conjunct2, THEN conjunct2, THEN conjunct1]
  note te = upstream_classification [where b = Moon and MAX_ZOOM = 7 and status_code = 503
      and bytes = "''bytes''" and tile_url = "''u''" and layer = "''L''"
      and date = "''2025-10-03''" and version = "''1.0.0''" and z = 2 and y = 1 and x = 3
      and style = "''default''" and tile_matrix_set = "''T''" and format = "''png''"
      and msg = "''m''" and utcnow = sample_utcnow and client_get = sample_upstream
      and requested = "[]" and c = "''L''", THEN conjunct2, THEN conjunct2, THEN conjunct2, THEN conjunct2, THEN conjunct2, THEN conjunct2, THEN conjunct2, THEN conjunct2, THEN conjunct2, THEN conjunct2, THEN conjunct2, THEN conjunct2, THEN conjunct2, THEN conjunct2, THEN conjunct1]
  have ra: "\<exists>hs. classify Earth 7 (Response 206 ''bytes'') ''u'' ''L'' ''2025-10-03''
      ''1.0.0'' 6 18 23 ''default'' ''T'' ''png'' =
      Inr \<lparr>content = ''bytes'', media_type = ''image/png'', headers = hs\<rparr>"
    using ta s1 by (simp add: content_type_table)
  have rb: "\<exists>d. classify Moon 7 (Response 503 ''bytes'') ''u'' ''L'' ''2025-10-03''
      ''1.0.0'' 6 18 23 ''default'' ''T'' ''png'' = Inl (HTTPException 503 d)"
    using tb s2 by auto
  have rc: "\<exists>d. classify Mercury 7 (Response 503 ''bytes'') ''u'' ''L'' ''2025-10-03''
      ''1.0.0'' 6 18 23 ''default'' ''T'' ''png'' = Inl (HTTPException 502 d) \<and>
      error_of d = Some ''Upstream service error''"
    using tc by auto
  have rd: "content_type_of ''bmp'' = ''image/jpeg''"
    using td f by (rule mp)
  have re: "fst (get_moon_tile sample_upstream 2 1 3 ''L'' ''1.0.0'' ''default'' ''T''
      ''png'' []) =
     classify Moon 7 (Response 200 ''bytes'')
       (moon_tile_url ''L'' ''1.0.0'' ''default'' ''T'' 2 1 3 ''png'')
       ''L'' ''2025-10-03'' ''1.0.0'' 2 1 3 ''default'' ''T'' ''png''"
    using te [THEN mp, OF conjI [OF z0 mc]] by (simp add: sample_upstream_def)
  show ?thesis
    by (intro conjI s1 s2 f z0 mc ra rb rc rd re)
qed

subsection \<open>The upstream URL\<close>

lemma earth_url_join:
  "earth_tile_url layer date tile_matrix_set z y x format =
     spec_join [GIBS_BASE_URL, layer, ''default'', date, tile_matrix_set, str_int z, str_int y,
                str_int x @ ''.'' @ format]"
  by (simp add: earth_tile_url_def)

lemma moon_url_join:
  "moon_tile_url layer version style tile_matrix_set z y x format =
     spec_join [TREK_MOON_BASE_URL, layer, version, style, tile_matrix_set, str_int z, str_int y,
                str_int x @ ''.'' @ format]"
  by (simp add: moon_tile_url_def)

lemma mars_url_join:
  "mars_tile_url canonical_layer version style tile_matrix_set z y x format =
     spec_join [TREK_MARS_BASE_URL, canonical_layer, version, style, tile_matrix_set, str_int z,
                str_int y, str_int x @ ''.'' @ format]"
  by (simp add: mars_tile_url_def)

lemma mercury_url_join:
  "mercury_tile_url layer version style TileMatrixSet z y x format =
     spec_join [TREK_MERCURY_BASE_URL, layer, version, style, TileMatrixSet, str_int z, str_int y,
                str_int x @ ''.'' @ format]"
  by (simp add: mercury_tile_url_def)

text \<open>
  C8. The URL that a handler requests for a valid request is a function of the resolved
  parameters alone, whatever the upstream, the clock and the earlier requests are. On
  Earth it is the base, the layer, the literal \<open>default\<close>, the date, the tile matrix set,
  \<open>z\<close>, \<open>y\<close> and \<open>x.format\<close>, joined by slashes; on the Moon, Mars and Mercury it is
  the base, the layer (on Mars the canonical one), the version, the style, the tile matrix
  set, \<open>z\<close>, \<open>y\<close> and \<open>x.format\<close>, joined by slashes: the row comes before the column
  in both.
\<close>

theorem upstream_url_shape:
  "(0 \<le> z \<and> earth_validate_date utcnow date = Inr () \<and>
    earth_validate_coordinates z x y = Inr () \<longrightarrow>
      snd (get_earth_tile utcnow client_get layer date z y x tile_matrix_set format requested) =
        requested @ [spec_join [GIBS_BASE_URL, layer, ''default'', date, tile_matrix_set,
                                str_int z, str_int y, str_int x @ ''.'' @ format]])
   \<and> (0 \<le> z \<and> moon_validate_coordinates z x y = Inr () \<longrightarrow>
      snd (get_moon_tile client_get z y x layer version style tile_matrix_set format requested) =
        requested @ [spec_join [TREK_MOON_BASE_URL, layer, version, style, tile_matrix_set,
                                str_int z, str_int y, str_int x @ ''.'' @ format]])
   \<and> (validate_zoom_level MAX_ZOOM z = Inr () \<and> normalize_layer MAX_ZOOM layer = Inr c \<and>
       validate_tile_coordinates z x y = Inr () \<longrightarrow>
      snd (get_mars_tile MAX_ZOOM client_get z y x layer version style tile_matrix_set format
             requested) =
        requested @ [spec_join [TREK_MARS_BASE_URL, c, version, style, tile_matrix_set,
                                str_int z, str_int y, str_int x @ ''.'' @ format]])
   \<and> (mercury_validate_format format = Inr () \<and> mercury_validate_zoom z = Inr () \<and>
       mercury_validate_coordinates z x y = Inr () \<longrightarrow>
      snd (get_mercury_tile client_get z x y layer version style tile_matrix_set format
             requested) =
        requested @ [spec_join [TREK_MERCURY_BASE_URL, layer, version, style, tile_matrix_set,
                                str_int z, str_int y, str_int x @ ''.'' @ format]])"
proof (intro conjI impI)
  assume "0 \<le> z \<and> earth_validate_date utcnow date = Inr () \<and>
    earth_validate_coordinates z x y = Inr ()"
  then show "snd (get_earth_tile utcnow client_get layer date z y x tile_matrix_set format
        requested) =
        requested @ [spec_join [GIBS_BASE_URL, layer, ''default'', date, tile_matrix_set,
                                str_int z, str_int y, str_int x @ ''.'' @ format]]"
    using earth_one_fetch earth_url_join by simp
next
  assume "0 \<le> z \<and> moon_validate_coordinates z x y = Inr ()"
  then show "snd (get_moon_tile client_get z y x layer version style tile_matrix_set format
        requested) =
        requested @ [spec_join [TREK_MOON_BASE_URL, layer, version, style, tile_matrix_set,
                                str_int z, str_int y, str_int x @ ''.'' @ format]]"
    using moon_one_fetch moon_url_join by simp
next
  assume "validate_zoom_level MAX_ZOOM z = Inr () \<and> normalize_layer MAX_ZOOM layer = Inr c \<and>
       validate_tile_coordinates z x y = Inr ()"
  then show "snd (get_mars_tile MAX_ZOOM client_get z y x layer version style tile_matrix_set
        format requested) =
        requested @ [spec_join [TREK_MARS_BASE_URL, c, version, style, tile_matrix_set,
                                str_int z, str_int y, str_int x @ ''.'' @ format]]"
    using mars_one_fetch mars_url_join by simp
next
  assume "mercury_validate_format format = Inr () \<and> mercury_validate_zoom z = Inr () \<and>
       mercury_validate_coordinates z x y = Inr ()"
  then show "snd (get_mercury_tile client_get z x y layer version style tile_matrix_set format
        requested) =
        requested @ [spec_join [TREK_MERCURY_BASE_URL, layer, version, style, tile_matrix_set,
                                str_int z, str_int y, str_int x @ ''.'' @ format]]"
    using mercury_one_fetch mercury_url_join by simp
qed

theorem upstream_url_shape_witness:
  "(0::int) \<le> 6 \<and> earth_validate_date sample_utcnow ''2025-10-03'' = Inr () \<and>
   earth_validate_coordinates 6 23 18 = Inr () \<and>
   snd (get_earth_tile sample_utcnow sample_upstream EARTH_DEFAULT_LAYER ''2025-10-03'' 6 18 23
          EARTH_DEFAULT_TMS ''jpg'' []) =
     [''https://gibs.earthdata.nasa.gov/wmts/epsg3857/best/VIIRS_SNPP_CorrectedReflectance_TrueColor/default/2025-10-03/GoogleMapsCompatible_Level9/6/18/23.jpg''] \<and>
   validate_zoom_level 7 4 = Inr () \<and>
   normalize_layer 7 ''MOLA'' = Inr ''Mars_MGS_MOLA_MEGR_global_463m'' \<and>
   validate_tile_coordinates 4 9 7 = Inr () \<and>
   snd (get_mars_tile 7 sample_upstream 4 7 9 ''MOLA'' ''1.0.0'' ''default'' ''default028mm''
          ''jpg'' []) =
     [''https://trek.nasa.gov/tiles/Mars/EQ/Mars_MGS_MOLA_MEGR_global_463m/1.0.0/default/default028mm/4/7/9.jpg'']"
proof -
  have d: "earth_validate_date sample_utcnow ''2025-10-03'' = Inr ()"
    by (simp add: earth_validate_date_def strptime_eval dt_eval sample_utcnow_def)
  have ec: "earth_validate_coordinates 6 23 18 = Inr ()"
    by (simp add: earth_coordinates_ok)
  have mz: "validate_zoom_level 7 4 = Inr ()"
    by (simp add: mars_zoom_ok)
  have ml: "normalize_layer 7 ''MOLA'' = Inr ''Mars_MGS_MOLA_MEGR_global_463m''"
    by (simp add: normalize_layer_def Let_def SUPPORTED_LAYERS_def MOLA_def VIKING_def
        strip_eval lower_eval)
  have mc: "validate_tile_coordinates 4 9 7 = Inr ()"
    by (simp add: mars_coordinates_ok)
  have z0: "(0::int) \<le> 6" by simp
  note te = upstream_url_shape [where utcnow = sample_utcnow and date = "''2025-10-03''"
      and z = 6 and y = 18 and x = 23 and client_get = sample_upstream
      and layer = EARTH_DEFAULT_LAYER and tile_matrix_set = EARTH_DEFAULT_TMS
      and format = "''jpg''" and requested = "[]" and MAX_ZOOM = 7 and c = "''L''"
      and version = "''1.0.0''" and style = "''default''", THEN conjunct1]
  note tm = upstream_url_shape [where utcnow = sample_utcnow and date = "''2025-10-03''"
      and z = 4 and y = 7 and x = 9 and client_get = sample_upstream
      and layer = "''MOLA''" and tile_matrix_set = "''default028mm''"
      and format = "''jpg''" and requested = "[]" and MAX_ZOOM = 7
      and c = "''Mars_MGS_MOLA_MEGR_global_463m''"
      and version = "''1.0.0''" and style = "''default''", THEN conjunct2, THEN conjunct2, THEN conjunct1]
  have re: "snd (get_earth_tile sample_utcnow sample_upstream EARTH_DEFAULT_LAYER ''2025-10-03''
          6 18 23 EARTH_DEFAULT_TMS ''jpg'' []) =
     [''https://gibs.earthdata.nasa.gov/wmts/epsg3857/best/VIIRS_SNPP_CorrectedReflectance_TrueColor/default/2025-10-03/GoogleMapsCompatible_Level9/6/18/23.jpg'']"
    using te [THEN mp, OF conjI [OF z0 conjI [OF d ec]]]
    by (simp add: GIBS_BASE_URL_def EARTH_DEFAULT_LAYER_def EARTH_DEFAULT_TMS_def str_int_eval)
  have rm: "snd (get_mars_tile 7 sample_upstream 4 7 9 ''MOLA'' ''1.0.0'' ''default''
          ''default028mm'' ''jpg'' []) =
     [''https://trek.nasa.gov/tiles/Mars/EQ/Mars_MGS_MOLA_MEGR_global_463m/1.0.0/default/default028mm/4/7/9.jpg'']"
    using tm [THEN mp, OF conjI [OF mz conjI [OF ml mc]]]
    by (simp add: TREK_MARS_BASE_URL_def str_int_eval)
  show ?thesis
    by (intro conjI z0 d ec re mz ml mc rm)
qed

subsection \<open>Mercury: the order of the checks\<close>

lemma mercury_format_first:
  assumes "lower format \<noteq> ''jpg''"
  shows "\<exists>d. get_mercury_tile client_get z x y layer version style TileMatrixSet format requested
              = (Inl (HTTPException 406 d), requested)
            \<and> error_of d = Some ''Unsupported format''
            \<and> field_of ''provided'' d = Some (JStr format)"
  using assms by (simp add: get_mercury_tile_def mercury_validate_format_def)

text \<open>
  C9, as the code has it. In the Mercury handler the format check runs before the zoom
  and coordinate checks: whenever the lower-cased format is not \<open>jpg\<close> the handler
  raises the 406 "Unsupported format", echoing the format, whatever the zoom and the
  coordinates are, and without any upstream request. The endpoint gives this 406 to every
  such request whose \<open>z\<close>, \<open>x\<close> and \<open>y\<close> are not negative, also when the zoom is above
  the maximum or a coordinate is at or beyond the tile matrix. A request with a negative
  \<open>z\<close>, \<open>x\<close> or \<open>y\<close> does not reach the format check: the endpoint rejects it by the
  declared constraint \<open>ge=0\<close>, with the framework's validation error, whatever its format.
\<close>

theorem mercury_format_checked_first:
  "lower format \<noteq> ''jpg'' \<Longrightarrow>
     (\<exists>d. get_mercury_tile client_get z x y layer version style TileMatrixSet format requested
            = (Inl (HTTPException 406 d), requested)
          \<and> error_of d = Some ''Unsupported format''
          \<and> field_of ''provided'' d = Some (JStr format))
     \<and> (0 \<le> z \<and> 0 \<le> x \<and> 0 \<le> y \<longrightarrow>
          (\<exists>d. mercury_route client_get z x y layer version style TileMatrixSet format requested
                 = (Inl (HTTPException 406 d), requested)
               \<and> error_of d = Some ''Unsupported format''
               \<and> field_of ''provided'' d = Some (JStr format)))
     \<and> (z < 0 \<or> x < 0 \<or> y < 0 \<longrightarrow>
          (\<exists>names. mercury_route client_get z x y layer version style TileMatrixSet format
                       requested
                     = (Inl (RequestValidationError names), requested)))"
proof (intro conjI impI)
  assume f: "lower format \<noteq> ''jpg''"
  then show "\<exists>d. get_mercury_tile client_get z x y layer version style TileMatrixSet format
                requested = (Inl (HTTPException 406 d), requested)
            \<and> error_of d = Some ''Unsupported format''
            \<and> field_of ''provided'' d = Some (JStr format)"
    by (rule mercury_format_first)
next
  assume f: "lower format \<noteq> ''jpg''" and n: "0 \<le> z \<and> 0 \<le> x \<and> 0 \<le> y"
  from n have "mercury_query z x y = Inr ()" by (simp add: mercury_query_ok)
  then have "mercury_route client_get z x y layer version style TileMatrixSet format requested =
      get_mercury_tile client_get z x y layer version style TileMatrixSet format requested"
    by (rule mercury_route_accepts)
  then show "\<exists>d. mercury_route client_get z x y layer version style TileMatrixSet format
                requested = (Inl (HTTPException 406 d), requested)
            \<and> error_of d = Some ''Unsupported format''
            \<and> field_of ''provided'' d = Some (JStr format)"
    using mercury_format_first [OF f] by simp
next
  assume "z < 0 \<or> x < 0 \<or> y < 0"
  then have "mercury_query z x y \<noteq> Inr ()" by (auto simp: mercury_query_ok)
  then show "\<exists>names. mercury_route client_get z x y layer version style TileMatrixSet format
                 requested = (Inl (RequestValidationError names), requested)"
    by (rule mercury_route_rejects)
qed

theorem mercury_format_checked_first_witness:
  "lower ''png'' \<noteq> ''jpg'' \<and>
   (\<exists>d. get_mercury_tile sample_upstream 99 (- 5) 1000 ''L'' ''1.0.0'' ''default''
            ''default028mm'' ''png'' []
          = (Inl (HTTPException 406 d), [])
        \<and> error_of d = Some ''Unsupported format''
        \<and> field_of ''provided'' d = Some (JStr ''png'')) \<and>
   (0::int) \<le> 8 \<and> (0::int) \<le> 300 \<and> (0::int) \<le> 4 \<and>
   (\<exists>d. mercury_route sample_upstream 8 300 4 ''L'' ''1.0.0'' ''default'' ''default028mm''
            ''png'' []
          = (Inl (HTTPException 406 d), [])
        \<and> error_of d = Some ''Unsupported format''
        \<and> field_of ''provided'' d = Some (JStr ''png'')) \<and>
   (- 1 :: int) < 0 \<and>
   (\<exists>names. mercury_route sample_upstream (- 1) 0 0 ''L'' ''1.0.0'' ''default''
                ''default028mm'' ''png'' []
              = (Inl (RequestValidationError names), []))"
proof -
  have h: "lower ''png'' \<noteq> ''jpg''" by (simp add: lower_eval)
  have p: "(0::int) \<le> 8 \<and> (0::int) \<le> 300 \<and> (0::int) \<le> 4" by simp
  have n: "(- 1 :: int) < 0 \<or> (0::int) < 0 \<or> (0::int) < 0" by simp
  note a = mercury_format_checked_first [OF h, of sample_upstream 99 "- 5" 1000 "''L''"
      "''1.0.0''" "''default''" "''default028mm''" "[]", THEN conjunct1]
  note b = mercury_format_checked_first [OF h, of sample_upstream 8 300 4 "''L''"
      "''1.0.0''" "''default''" "''default028mm''" "[]", THEN conjunct2, THEN conjunct1,
      THEN mp, OF p]
  note c = mercury_format_checked_first [OF h, of sample_upstream "- 1" 0 0 "''L''"
      "''1.0.0''" "''default''" "''default028mm''" "[]", THEN conjunct2, THEN conjunct2,
      THEN mp, OF n]
  show ?thesis using h a b c by simp
qed

text \<open>
  C9 as stated fails at \<open>z = -1\<close> with the format \<open>png\<close>: the endpoint answers with the
  validation error for \<open>z\<close> (status 422), not with the 406.
\<close>

theorem mercury_format_checked_first_counterexample:
  "lower ''png'' \<noteq> ''jpg'' \<and>
   mercury_route sample_upstream (- 1) 0 0 ''L'' ''1.0.0'' ''default'' ''default028mm''
     ''png'' [] = (Inl (RequestValidationError [''z'']), []) \<and>
   status_of (RequestValidationError [''z'']) = 422"
  by (simp add: lower_eval mercury_route_def mercury_query_def violations_def)

end
